theory Spec2Isabelle
  imports Complex_Main "HOL-Library.Word"
begin

section \<open>The C ABI shim in front of the simulator (ns3shim.cpp)\<close>

text \<open>
  The shim wraps an external discrete-event simulator behind a flat C interface. This
  theory embeds the shim of \<^verbatim>\<open>src/adapter/native/src/ns3shim.cpp\<close>: the per-simulation
  context, the four handle registries with their ID counters, the error slot, and every
  exported entry point.

  The simulator itself is not part of the repository. Each entry point therefore takes
  the behaviour of the simulator calls it makes as an argument of type \<open>'a ext\<close>: the
  calls complete (with the value they hand back), or they throw. A C++ exception is
  either derived from \<open>std::exception\<close> and carries its \<open>what()\<close> text, or it is of
  another type; the handlers of the source tell the two apart
  (\<^verbatim>\<open>catch (const std::exception& e)\<close> against \<^verbatim>\<open>catch (...)\<close>), so the model does too.
  Allocation failures inside the standard containers of the shim are not modelled.
\<close>

subsection \<open>Scalar types, status, handles\<close>

type_synonym u16 = "16 word"
type_synonym u32 = "32 word"
type_synonym u64 = "64 word"

text \<open>\<^verbatim>\<open>typedef enum { NS3_OK = 0, NS3_ERR = -1 } ns3_status\<close>\<close>

datatype ns3_status = NS3_OK | NS3_ERR

text \<open>
  The handles \<^verbatim>\<open>ns3_node\<close>, \<^verbatim>\<open>ns3_device\<close>, \<^verbatim>\<open>ns3_app\<close> and \<^verbatim>\<open>ns3_flowmon\<close> are
  pointer-shaped values whose bit pattern is a 64-bit ID; the null pointer is 0.
\<close>

type_synonym handle = u64

definition HandleToId :: "handle \<Rightarrow> u64" where
  "HandleToId h = h"

definition IdToNodeHandle :: "u64 \<Rightarrow> handle" where
  "IdToNodeHandle i = i"

definition IdToDeviceHandle :: "u64 \<Rightarrow> handle" where
  "IdToDeviceHandle i = i"

definition IdToAppHandle :: "u64 \<Rightarrow> handle" where
  "IdToAppHandle i = i"

definition IdToFlowMonHandle :: "u64 \<Rightarrow> handle" where
  "IdToFlowMonHandle i = i"

text \<open>
  A pointer the shim only writes through (an output slot, an output array, the message
  buffer) is null or points to caller storage of the documented size; the model returns
  the values the call stores there. A pointer the shim reads through is an \<open>option\<close>
  of the data it points to, \<open>None\<close> for the null pointer. A callback is a function
  pointer: only whether it is null matters to the shim.
\<close>

datatype out_ptr = NullPtr | ValidPtr

type_synonym callback = "nat option"

subsection \<open>Simulator objects held by the registries\<close>

text \<open>
  The shim keeps a shared reference to each simulator object and never looks inside a
  node, an application or a flow monitor. Of a net device it uses the dynamic type
  (\<^verbatim>\<open>GetObject<PointToPointNetDevice>()\<close>); a Wi-Fi device also records the standard
  and MAC type its helper was configured with.
\<close>

datatype Node = Node

datatype Application = UdpEchoServer | UdpEchoClient

datatype FlowMonitor = FlowMonitor

datatype WifiStandard =
    WIFI_STANDARD_80211a | WIFI_STANDARD_80211b | WIFI_STANDARD_80211g
  | WIFI_STANDARD_80211n | WIFI_STANDARD_80211ac

datatype WifiMac = StaWifiMac | ApWifiMac

datatype NetDevice =
    PointToPointNetDevice
  | CsmaNetDevice
  | WifiNetDevice WifiStandard WifiMac

text \<open>
  \<^verbatim>\<open>device->GetObject<PointToPointNetDevice>()\<close>: the device itself when it is a
  point-to-point device, the null \<^verbatim>\<open>Ptr\<close> otherwise.
\<close>

fun GetObject_PointToPointNetDevice :: "NetDevice \<Rightarrow> NetDevice option" where
  "GetObject_PointToPointNetDevice PointToPointNetDevice = Some PointToPointNetDevice"
| "GetObject_PointToPointNetDevice CsmaNetDevice = None"
| "GetObject_PointToPointNetDevice (WifiNetDevice std mac) = None"

subsection \<open>The per-simulation context\<close>

text \<open>
  \<^verbatim>\<open>struct ns3_sim_t\<close>. The two stateful helpers (\<^verbatim>\<open>internetStack\<close>, \<^verbatim>\<open>ipv4Helper\<close>)
  are simulator objects and belong to the simulator's side; the mutex guards the error
  slot and has no sequential content.
\<close>

record ns3_sim_t =
  nodes :: "u64 \<rightharpoonup> Node"
  devices :: "u64 \<rightharpoonup> NetDevice"
  apps :: "u64 \<rightharpoonup> Application"
  flowMons :: "u64 \<rightharpoonup> FlowMonitor"
  isRunning :: bool
  lastError :: string
  nextNodeId :: u64
  nextDeviceId :: u64
  nextAppId :: u64
  nextFlowMonId :: u64

text \<open>\<^verbatim>\<open>ns3_sim\<close> is a pointer to the context: \<open>None\<close> is the null pointer.\<close>

type_synonym ns3_sim = "ns3_sim_t option"

text \<open>The context \<^verbatim>\<open>new ns3_sim_t()\<close> builds from the default member initialisers.\<close>

definition new_ns3_sim_t :: ns3_sim_t where
  "new_ns3_sim_t =
     \<lparr> nodes = Map.empty, devices = Map.empty, apps = Map.empty, flowMons = Map.empty,
       isRunning = False, lastError = [],
       nextNodeId = 1, nextDeviceId = 1, nextAppId = 1, nextFlowMonId = 1 \<rparr>"

definition SetError :: "ns3_sim_t \<Rightarrow> string \<Rightarrow> ns3_sim_t" where
  "SetError s msg = s\<lparr>lastError := msg\<rparr>"

definition GetError :: "ns3_sim_t \<Rightarrow> string" where
  "GetError s = lastError s"

definition ValidateSim :: "ns3_sim \<Rightarrow> bool" where
  "ValidateSim sim = (sim \<noteq> None)"

subsection \<open>Exceptions, faults and results\<close>

datatype exn = StdException string | OtherException

datatype 'a ext = Completes 'a | Throws exn

text \<open>
  Dereferencing a null pointer is not an exception: no handler of the shim sees it.
\<close>

datatype fault = NullDereference

text \<open>
  What a call of an entry point does: it returns a status, leaving the context in some
  state and having stored some output; or an exception leaves the entry point, with the
  context as it stood; or the call faults.
\<close>

datatype 'a result =
    Returns ns3_status ns3_sim 'a
  | Propagates exn ns3_sim
  | Fault fault

text \<open>\<^verbatim>\<open>sim->...\<close>: access to the context through the pointer.\<close>

definition deref :: "ns3_sim \<Rightarrow> (ns3_sim_t \<Rightarrow> 'a result) \<Rightarrow> 'a result" where
  "deref sim f = (case sim of None \<Rightarrow> Fault NullDereference | Some s \<Rightarrow> f s)"

text \<open>
  The handler shared by every entry point but \<^verbatim>\<open>sim_destroy\<close>:
  \<^verbatim>\<open>catch (const std::exception& e) { sim->SetError(std::string("<op> failed: ") + e.what()); return NS3_ERR; }\<close>.
  An exception of another type is not caught. \<open>out\<close> is the (unwritten) output.
\<close>

definition catch_std_exception :: "string \<Rightarrow> ns3_sim \<Rightarrow> 'a \<Rightarrow> exn \<Rightarrow> 'a result" where
  "catch_std_exception opname sim out e =
     (case e of
        StdException what \<Rightarrow>
          deref sim (\<lambda>s. Returns NS3_ERR (Some (SetError s (opname @ '' failed: '' @ what))) out)
      | OtherException \<Rightarrow> Propagates e sim)"

subsection \<open>Lookup helpers\<close>

definition GetNode :: "ns3_sim \<Rightarrow> handle \<Rightarrow> Node option \<times> ns3_sim" where
  "GetNode sim node =
     (case sim of
        None \<Rightarrow> (None, sim)
      | Some s \<Rightarrow>
          if node = 0 then (None, sim)
          else (case nodes s (HandleToId node) of
                  None \<Rightarrow> (None, Some (SetError s ''Invalid node handle''))
                | Some n \<Rightarrow> (Some n, sim)))"

definition GetDevice :: "ns3_sim \<Rightarrow> handle \<Rightarrow> NetDevice option \<times> ns3_sim" where
  "GetDevice sim dev =
     (case sim of
        None \<Rightarrow> (None, sim)
      | Some s \<Rightarrow>
          if dev = 0 then (None, sim)
          else (case devices s (HandleToId dev) of
                  None \<Rightarrow> (None, Some (SetError s ''Invalid device handle''))
                | Some d \<Rightarrow> (Some d, sim)))"

definition GetApp :: "ns3_sim \<Rightarrow> handle \<Rightarrow> Application option \<times> ns3_sim" where
  "GetApp sim app =
     (case sim of
        None \<Rightarrow> (None, sim)
      | Some s \<Rightarrow>
          if app = 0 then (None, sim)
          else (case apps s (HandleToId app) of
                  None \<Rightarrow> (None, Some (SetError s ''Invalid application handle''))
                | Some a \<Rightarrow> (Some a, sim)))"

definition GetFlowMon :: "ns3_sim \<Rightarrow> handle \<Rightarrow> FlowMonitor option \<times> ns3_sim" where
  "GetFlowMon sim fm =
     (case sim of
        None \<Rightarrow> (None, sim)
      | Some s \<Rightarrow>
          if fm = 0 then (None, sim)
          else (case flowMons s (HandleToId fm) of
                  None \<Rightarrow> (None, Some (SetError s ''Invalid flow monitor handle''))
                | Some m \<Rightarrow> (Some m, sim)))"

subsection \<open>Error handling\<close>

text \<open>
  \<^verbatim>\<open>ns3_last_error(sim, buf, len)\<close>. The second component is the bytes stored at
  \<^verbatim>\<open>buf[0..]\<close>: \<open>copyLen\<close> bytes of the message, then the terminating NUL.
\<close>

definition ns3_last_error :: "ns3_sim \<Rightarrow> out_ptr \<Rightarrow> u64 \<Rightarrow> ns3_status \<times> string" where
  "ns3_last_error sim buf len =
     (if buf = NullPtr \<or> len = 0 then (NS3_ERR, [])
      else
        let msg = (case sim of Some s \<Rightarrow> GetError s | None \<Rightarrow> ''No simulation context'');
            copyLen = min (length msg) (unat (len - 1))
        in (NS3_OK, take copyLen msg @ [CHR 0x00]))"

subsection \<open>Simulation lifecycle\<close>

text \<open>
  \<^verbatim>\<open>sim_create(outSim)\<close>. The context component of the result is what the call stores
  in \<^verbatim>\<open>*outSim\<close>; \<open>alloc\<close> is the behaviour of \<^verbatim>\<open>new ns3_sim_t()\<close>.
\<close>

definition sim_create :: "out_ptr \<Rightarrow> unit ext \<Rightarrow> unit result" where
  "sim_create outSim alloc =
     (if outSim = NullPtr then Returns NS3_ERR None ()
      else (case alloc of
              Completes _ \<Rightarrow> Returns NS3_OK (Some new_ns3_sim_t) ()
            | Throws e \<Rightarrow>
                (case e of
                   StdException what \<Rightarrow> Returns NS3_ERR None ()
                 | OtherException \<Rightarrow> Propagates e None)))"

definition sim_set_seed :: "ns3_sim \<Rightarrow> u32 \<Rightarrow> unit ext \<Rightarrow> unit result" where
  "sim_set_seed sim seed SetSeed =
     (if \<not> ValidateSim sim then Returns NS3_ERR sim ()
      else (case SetSeed of
              Completes _ \<Rightarrow> Returns NS3_OK sim ()
            | Throws e \<Rightarrow> catch_std_exception ''sim_set_seed'' sim () e))"

text \<open>
  \<^verbatim>\<open>sim_run(sim)\<close>. \<open>Run\<close> is \<^verbatim>\<open>Simulator::Run()\<close>, the drain of the event loop; it is
  given the context as it stands while the loop runs, which is what a callback fired by
  the loop observes through \<^verbatim>\<open>sim_is_running\<close>. Callbacks that change the context by
  calling back into the shim are not modelled.
\<close>

definition sim_run :: "ns3_sim \<Rightarrow> (ns3_sim_t \<Rightarrow> unit ext) \<Rightarrow> unit result" where
  "sim_run sim Run =
     (if \<not> ValidateSim sim then Returns NS3_ERR sim ()
      else deref sim (\<lambda>s.
        let running = s\<lparr>isRunning := True\<rparr> in
        (case Run running of
           Completes _ \<Rightarrow> Returns NS3_OK (Some (running\<lparr>isRunning := False\<rparr>)) ()
         | Throws e \<Rightarrow>
             (case e of
                StdException what \<Rightarrow>
                  Returns NS3_ERR
                    (Some (SetError (running\<lparr>isRunning := False\<rparr>) (''sim_run failed: '' @ what))) ()
              | OtherException \<Rightarrow> Propagates e (Some running)))))"

definition sim_stop :: "ns3_sim \<Rightarrow> real \<Rightarrow> unit ext \<Rightarrow> unit result" where
  "sim_stop sim atTimeSec Stop =
     (if \<not> ValidateSim sim then Returns NS3_ERR sim ()
      else (case Stop of
              Completes _ \<Rightarrow> Returns NS3_OK sim ()
            | Throws e \<Rightarrow> catch_std_exception ''sim_stop'' sim () e))"

definition sim_is_running :: "ns3_sim \<Rightarrow> out_ptr \<Rightarrow> int option result" where
  "sim_is_running sim outIsRunning =
     (if \<not> ValidateSim sim \<or> outIsRunning = NullPtr then Returns NS3_ERR sim None
      else deref sim (\<lambda>s. Returns NS3_OK sim (Some (if isRunning s then 1 else 0))))"

definition sim_now :: "ns3_sim \<Rightarrow> out_ptr \<Rightarrow> real ext \<Rightarrow> real option result" where
  "sim_now sim outTimeSec Now =
     (if \<not> ValidateSim sim \<or> outTimeSec = NullPtr then Returns NS3_ERR sim None
      else (case Now of
              Completes seconds \<Rightarrow> Returns NS3_OK sim (Some seconds)
            | Throws e \<Rightarrow> catch_std_exception ''sim_now'' sim None e))"

definition sim_schedule :: "ns3_sim \<Rightarrow> real \<Rightarrow> callback \<Rightarrow> nat \<Rightarrow> unit ext \<Rightarrow> unit result" where
  "sim_schedule sim inSeconds cb user Schedule =
     (if \<not> ValidateSim sim \<or> cb = None then Returns NS3_ERR sim ()
      else (case Schedule of
              Completes _ \<Rightarrow> Returns NS3_OK sim ()
            | Throws e \<Rightarrow> catch_std_exception ''sim_schedule'' sim () e))"

text \<open>
  \<^verbatim>\<open>sim_destroy(sim)\<close>. \<open>Destroy\<close> is \<^verbatim>\<open>Simulator::Destroy()\<close>. Both the \<^verbatim>\<open>try\<close> block
  and the handler \<^verbatim>\<open>catch (...)\<close> run \<^verbatim>\<open>delete sim\<close>: the context component of the
  result is \<open>None\<close>, the context no longer exists.
\<close>

definition sim_destroy :: "ns3_sim \<Rightarrow> unit ext \<Rightarrow> unit result" where
  "sim_destroy sim Destroy =
     (if sim = None then Returns NS3_OK sim ()
      else (case Destroy of
              Completes _ \<Rightarrow> Returns NS3_OK None ()
            | Throws e \<Rightarrow> Returns NS3_ERR None ()))"

subsection \<open>Nodes and topology\<close>

text \<open>
  The registration loop of \<^verbatim>\<open>nodes_create\<close>:
  \<^verbatim>\<open>uint64_t id = sim->nextNodeId++; sim->nodes[id] = nodes.Get(i); outArray[i] = IdToNodeHandle(id);\<close>
  over the created nodes; the second component is what is stored in \<^verbatim>\<open>outArray\<close>.
\<close>

fun register_nodes :: "Node list \<Rightarrow> ns3_sim_t \<Rightarrow> ns3_sim_t \<times> handle list" where
  "register_nodes [] s = (s, [])"
| "register_nodes (n # ns) s =
     (let nid = nextNodeId s;
          s1 = s\<lparr>nextNodeId := nid + 1\<rparr>;
          s2 = s1\<lparr>nodes := (nodes s1)(nid \<mapsto> n)\<rparr>;
          (s3, out) = register_nodes ns s2
      in (s3, IdToNodeHandle nid # out))"

definition nodes_create :: "ns3_sim \<Rightarrow> u32 \<Rightarrow> out_ptr \<Rightarrow> unit ext \<Rightarrow> handle list result" where
  "nodes_create sim count outArray Create =
     (if \<not> ValidateSim sim \<or> outArray = NullPtr \<or> count = 0 then Returns NS3_ERR sim []
      else (case Create of
              Throws e \<Rightarrow> catch_std_exception ''nodes_create'' sim [] e
            | Completes _ \<Rightarrow>
                deref sim (\<lambda>s.
                  let (s', out) = register_nodes (replicate (unat count) Node) s
                  in Returns NS3_OK (Some s') out)))"

text \<open>
  The lookup loop of \<^verbatim>\<open>internet_install\<close>, \<^verbatim>\<open>csma_install\<close> and \<^verbatim>\<open>wifi_install_sta_ap\<close>:
  \<^verbatim>\<open>Ptr<Node> node = GetNode(sim, nodes[i]); if (!node) return NS3_ERR; nc.Add(node);\<close>.
  The first component is \<open>None\<close> when the loop left through the \<^verbatim>\<open>return\<close>.
\<close>

fun lookup_nodes :: "ns3_sim \<Rightarrow> handle list \<Rightarrow> Node list option \<times> ns3_sim" where
  "lookup_nodes sim [] = (Some [], sim)"
| "lookup_nodes sim (h # hs) =
     (case GetNode sim h of
        (None, sim') \<Rightarrow> (None, sim')
      | (Some n, sim') \<Rightarrow>
          (case lookup_nodes sim' hs of
             (None, sim'') \<Rightarrow> (None, sim'')
           | (Some nc, sim'') \<Rightarrow> (Some (n # nc), sim'')))"

text \<open>
  An input array comes with its element count; the loop reads the elements
  \<^verbatim>\<open>[0, count)\<close>. The caller's array holds at least \<open>count\<close> elements.
\<close>

definition internet_install :: "ns3_sim \<Rightarrow> handle list option \<Rightarrow> u32 \<Rightarrow> unit ext \<Rightarrow> unit result" where
  "internet_install sim nodes_arr count Install =
     (if \<not> ValidateSim sim \<or> nodes_arr = None \<or> count = 0 then Returns NS3_ERR sim ()
      else (case lookup_nodes sim (take (unat count) (the nodes_arr)) of
              (None, sim') \<Rightarrow> Returns NS3_ERR sim' ()
            | (Some nc, sim') \<Rightarrow>
                (case Install of
                   Completes _ \<Rightarrow> Returns NS3_OK sim' ()
                 | Throws e \<Rightarrow> catch_std_exception ''internet_install'' sim' () e)))"

subsection \<open>Network devices and links\<close>

definition p2p_install ::
  "ns3_sim \<Rightarrow> handle \<Rightarrow> handle \<Rightarrow> string option \<Rightarrow> string option \<Rightarrow> u32 \<Rightarrow> out_ptr \<Rightarrow> out_ptr \<Rightarrow>
   unit ext \<Rightarrow> (handle \<times> handle) option result" where
  "p2p_install sim a b dataRate delay mtu outDevA outDevB Install =
     (if \<not> ValidateSim sim \<or> a = 0 \<or> b = 0 \<or> dataRate = None \<or> delay = None
         \<or> outDevA = NullPtr \<or> outDevB = NullPtr
      then Returns NS3_ERR sim None
      else (case GetNode sim a of (nodeA, sim1) \<Rightarrow>
           (case GetNode sim1 b of (nodeB, sim2) \<Rightarrow>
              if nodeA = None \<or> nodeB = None then Returns NS3_ERR sim2 None
              else (case Install of
                      Throws e \<Rightarrow> catch_std_exception ''p2p_install'' sim2 None e
                    | Completes _ \<Rightarrow>
                        deref sim2 (\<lambda>s.
                          let idA = nextDeviceId s;
                              s1 = s\<lparr>nextDeviceId := idA + 1\<rparr>;
                              idB = nextDeviceId s1;
                              s2 = s1\<lparr>nextDeviceId := idB + 1\<rparr>;
                              s3 = s2\<lparr>devices := (devices s2)(idA \<mapsto> PointToPointNetDevice)\<rparr>;
                              s4 = s3\<lparr>devices := (devices s3)(idB \<mapsto> PointToPointNetDevice)\<rparr>
                          in Returns NS3_OK (Some s4)
                               (Some (IdToDeviceHandle idA, IdToDeviceHandle idB)))))))"

text \<open>
  The registration loop of \<^verbatim>\<open>csma_install\<close> and \<^verbatim>\<open>wifi_install_sta_ap\<close>:
  \<^verbatim>\<open>uint64_t id = sim->nextDeviceId++; sim->devices[id] = devices.Get(i); out[i] = IdToDeviceHandle(id);\<close>.
\<close>

fun register_devices :: "NetDevice list \<Rightarrow> ns3_sim_t \<Rightarrow> ns3_sim_t \<times> handle list" where
  "register_devices [] s = (s, [])"
| "register_devices (d # ds) s =
     (let did = nextDeviceId s;
          s1 = s\<lparr>nextDeviceId := did + 1\<rparr>;
          s2 = s1\<lparr>devices := (devices s1)(did \<mapsto> d)\<rparr>;
          (s3, out) = register_devices ds s2
      in (s3, IdToDeviceHandle did # out))"

definition csma_install ::
  "ns3_sim \<Rightarrow> handle list option \<Rightarrow> u32 \<Rightarrow> string option \<Rightarrow> string option \<Rightarrow> out_ptr \<Rightarrow>
   unit ext \<Rightarrow> handle list result" where
  "csma_install sim nodes_arr count dataRate delay outDevices Install =
     (if \<not> ValidateSim sim \<or> nodes_arr = None \<or> count = 0 \<or> dataRate = None \<or> delay = None
         \<or> outDevices = NullPtr
      then Returns NS3_ERR sim []
      else (case lookup_nodes sim (take (unat count) (the nodes_arr)) of
              (None, sim') \<Rightarrow> Returns NS3_ERR sim' []
            | (Some nc, sim') \<Rightarrow>
                (case Install of
                   Throws e \<Rightarrow> catch_std_exception ''csma_install'' sim' [] e
                 | Completes _ \<Rightarrow>
                     deref sim' (\<lambda>s.
                       let (s', out) = register_devices (replicate (unat count) CsmaNetDevice) s
                       in Returns NS3_OK (Some s') out))))"

text \<open>The \<^verbatim>\<open>switch (phyStandard)\<close> of \<^verbatim>\<open>wifi_install_sta_ap\<close>.\<close>

definition SetStandard :: "int \<Rightarrow> WifiStandard" where
  "SetStandard phyStandard =
     (if phyStandard = 0 then WIFI_STANDARD_80211a
      else if phyStandard = 1 then WIFI_STANDARD_80211b
      else if phyStandard = 2 then WIFI_STANDARD_80211g
      else if phyStandard = 3 then WIFI_STANDARD_80211n
      else if phyStandard = 4 then WIFI_STANDARD_80211n
      else if phyStandard = 5 then WIFI_STANDARD_80211ac
      else WIFI_STANDARD_80211n)"

definition wifi_install_sta_ap ::
  "ns3_sim \<Rightarrow> handle list option \<Rightarrow> u32 \<Rightarrow> handle \<Rightarrow> int \<Rightarrow> string option \<Rightarrow> int \<Rightarrow>
   out_ptr \<Rightarrow> out_ptr \<Rightarrow> unit ext \<Rightarrow> (handle list \<times> handle option) result" where
  "wifi_install_sta_ap sim stas staCount ap phyStandard dataRate channelNumber
       outStaDevices outApDevice Install =
     (if \<not> ValidateSim sim \<or> stas = None \<or> staCount = 0 \<or> ap = 0 \<or> dataRate = None
         \<or> outStaDevices = NullPtr \<or> outApDevice = NullPtr
      then Returns NS3_ERR sim ([], None)
      else (case lookup_nodes sim (take (unat staCount) (the stas)) of
              (None, sim1) \<Rightarrow> Returns NS3_ERR sim1 ([], None)
            | (Some staNodes, sim1) \<Rightarrow>
                (case GetNode sim1 ap of
                   (None, sim2) \<Rightarrow> Returns NS3_ERR sim2 ([], None)
                 | (Some apNode, sim2) \<Rightarrow>
                     (case Install of
                        Throws e \<Rightarrow> catch_std_exception ''wifi_install_sta_ap'' sim2 ([], None) e
                      | Completes _ \<Rightarrow>
                          deref sim2 (\<lambda>s.
                            let standard = SetStandard phyStandard;
                                staDevices = replicate (unat staCount) (WifiNetDevice standard StaWifiMac);
                                apDevice = WifiNetDevice standard ApWifiMac;
                                (s1, out) = register_devices staDevices s;
                                apId = nextDeviceId s1;
                                s2 = s1\<lparr>nextDeviceId := apId + 1\<rparr>;
                                s3 = s2\<lparr>devices := (devices s2)(apId \<mapsto> apDevice)\<rparr>
                            in Returns NS3_OK (Some s3) (out, Some (IdToDeviceHandle apId)))))))"

subsection \<open>Mobility, addressing and routing\<close>

definition mobility_set_constant_position ::
  "ns3_sim \<Rightarrow> handle \<Rightarrow> real \<Rightarrow> real \<Rightarrow> real \<Rightarrow> unit ext \<Rightarrow> unit result" where
  "mobility_set_constant_position sim node x y z Install =
     (if \<not> ValidateSim sim \<or> node = 0 then Returns NS3_ERR sim ()
      else (case GetNode sim node of
              (None, sim') \<Rightarrow> Returns NS3_ERR sim' ()
            | (Some n, sim') \<Rightarrow>
                (case Install of
                   Completes _ \<Rightarrow> Returns NS3_OK sim' ()
                 | Throws e \<Rightarrow> catch_std_exception ''mobility_set_constant_position'' sim' () e)))"

text \<open>
  The lookup loop of \<^verbatim>\<open>ipv4_assign\<close>:
  \<^verbatim>\<open>Ptr<NetDevice> dev = GetDevice(sim, devices[i]); if (!dev) return NS3_ERR; devContainer.Add(dev);\<close>.
\<close>

fun lookup_devices :: "ns3_sim \<Rightarrow> handle list \<Rightarrow> NetDevice list option \<times> ns3_sim" where
  "lookup_devices sim [] = (Some [], sim)"
| "lookup_devices sim (h # hs) =
     (case GetDevice sim h of
        (None, sim') \<Rightarrow> (None, sim')
      | (Some d, sim') \<Rightarrow>
          (case lookup_devices sim' hs of
             (None, sim'') \<Rightarrow> (None, sim'')
           | (Some dc, sim'') \<Rightarrow> (Some (d # dc), sim'')))"

definition ipv4_assign ::
  "ns3_sim \<Rightarrow> handle list option \<Rightarrow> u32 \<Rightarrow> string option \<Rightarrow> string option \<Rightarrow> unit ext \<Rightarrow>
   unit result" where
  "ipv4_assign sim devices_arr count networkBase netmask Assign =
     (if \<not> ValidateSim sim \<or> devices_arr = None \<or> count = 0 \<or> networkBase = None \<or> netmask = None
      then Returns NS3_ERR sim ()
      else (case lookup_devices sim (take (unat count) (the devices_arr)) of
              (None, sim') \<Rightarrow> Returns NS3_ERR sim' ()
            | (Some devContainer, sim') \<Rightarrow>
                (case Assign of
                   Completes _ \<Rightarrow> Returns NS3_OK sim' ()
                 | Throws e \<Rightarrow> catch_std_exception ''ipv4_assign'' sim' () e)))"

definition ipv4_populate_routing_tables :: "ns3_sim \<Rightarrow> unit ext \<Rightarrow> unit result" where
  "ipv4_populate_routing_tables sim Populate =
     (if \<not> ValidateSim sim then Returns NS3_ERR sim ()
      else (case Populate of
              Completes _ \<Rightarrow> Returns NS3_OK sim ()
            | Throws e \<Rightarrow> catch_std_exception ''ipv4_populate_routing_tables'' sim () e))"

subsection \<open>Applications\<close>

definition app_udpecho_server ::
  "ns3_sim \<Rightarrow> handle \<Rightarrow> u16 \<Rightarrow> out_ptr \<Rightarrow> unit ext \<Rightarrow> handle option result" where
  "app_udpecho_server sim node port outApp Install =
     (if \<not> ValidateSim sim \<or> node = 0 \<or> outApp = NullPtr then Returns NS3_ERR sim None
      else (case GetNode sim node of
              (None, sim') \<Rightarrow> Returns NS3_ERR sim' None
            | (Some n, sim') \<Rightarrow>
                (case Install of
                   Throws e \<Rightarrow> catch_std_exception ''app_udpecho_server'' sim' None e
                 | Completes _ \<Rightarrow>
                     deref sim' (\<lambda>s.
                       let aid = nextAppId s;
                           s1 = s\<lparr>nextAppId := aid + 1\<rparr>;
                           s2 = s1\<lparr>apps := (apps s1)(aid \<mapsto> UdpEchoServer)\<rparr>
                       in Returns NS3_OK (Some s2) (Some (IdToAppHandle aid))))))"

definition app_udpecho_client ::
  "ns3_sim \<Rightarrow> handle \<Rightarrow> string option \<Rightarrow> u16 \<Rightarrow> u32 \<Rightarrow> real \<Rightarrow> u32 \<Rightarrow> out_ptr \<Rightarrow> unit ext \<Rightarrow>
   handle option result" where
  "app_udpecho_client sim node dstIp port packetSize intervalSec maxPackets outApp Install =
     (if \<not> ValidateSim sim \<or> node = 0 \<or> dstIp = None \<or> outApp = NullPtr
      then Returns NS3_ERR sim None
      else (case GetNode sim node of
              (None, sim') \<Rightarrow> Returns NS3_ERR sim' None
            | (Some n, sim') \<Rightarrow>
                (case Install of
                   Throws e \<Rightarrow> catch_std_exception ''app_udpecho_client'' sim' None e
                 | Completes _ \<Rightarrow>
                     deref sim' (\<lambda>s.
                       let aid = nextAppId s;
                           s1 = s\<lparr>nextAppId := aid + 1\<rparr>;
                           s2 = s1\<lparr>apps := (apps s1)(aid \<mapsto> UdpEchoClient)\<rparr>
                       in Returns NS3_OK (Some s2) (Some (IdToAppHandle aid))))))"

definition app_start :: "ns3_sim \<Rightarrow> handle \<Rightarrow> real \<Rightarrow> unit ext \<Rightarrow> unit result" where
  "app_start sim app atTimeSec SetStartTime =
     (if \<not> ValidateSim sim \<or> app = 0 then Returns NS3_ERR sim ()
      else (case GetApp sim app of
              (None, sim') \<Rightarrow> Returns NS3_ERR sim' ()
            | (Some a, sim') \<Rightarrow>
                (case SetStartTime of
                   Completes _ \<Rightarrow> Returns NS3_OK sim' ()
                 | Throws e \<Rightarrow> catch_std_exception ''app_start'' sim' () e)))"

definition app_stop :: "ns3_sim \<Rightarrow> handle \<Rightarrow> real \<Rightarrow> unit ext \<Rightarrow> unit result" where
  "app_stop sim app atTimeSec SetStopTime =
     (if \<not> ValidateSim sim \<or> app = 0 then Returns NS3_ERR sim ()
      else (case GetApp sim app of
              (None, sim') \<Rightarrow> Returns NS3_ERR sim' ()
            | (Some a, sim') \<Rightarrow>
                (case SetStopTime of
                   Completes _ \<Rightarrow> Returns NS3_OK sim' ()
                 | Throws e \<Rightarrow> catch_std_exception ''app_stop'' sim' () e)))"

subsection \<open>Tracing and statistics\<close>

text \<open>
  \<^verbatim>\<open>trace_subscribe_packet_events\<close>. For each non-null callback the source evaluates
  \<^verbatim>\<open>device->GetObject<PointToPointNetDevice>()->TraceConnectWithoutContext(...)\<close>: the
  \<^verbatim>\<open>->\<close> is applied to the result of the cast without a test, so a null result is
  dereferenced. \<open>Connect\<close> is the behaviour of the simulator calls.
\<close>

definition trace_subscribe_packet_events ::
  "ns3_sim \<Rightarrow> handle \<Rightarrow> callback \<Rightarrow> callback \<Rightarrow> nat \<Rightarrow> unit ext \<Rightarrow> unit result" where
  "trace_subscribe_packet_events sim dev onTx onRx user Connect =
     (if \<not> ValidateSim sim \<or> dev = 0 then Returns NS3_ERR sim ()
      else (case GetDevice sim dev of
              (None, sim') \<Rightarrow> Returns NS3_ERR sim' ()
            | (Some device, sim') \<Rightarrow>
                if onTx \<noteq> None \<and> GetObject_PointToPointNetDevice device = None
                then Fault NullDereference
                else if onRx \<noteq> None \<and> GetObject_PointToPointNetDevice device = None
                then Fault NullDereference
                else (case Connect of
                        Completes _ \<Rightarrow> Returns NS3_OK sim' ()
                      | Throws e \<Rightarrow>
                          catch_std_exception ''trace_subscribe_packet_events'' sim' () e)))"

definition pcap_enable :: "ns3_sim \<Rightarrow> handle \<Rightarrow> string option \<Rightarrow> unit ext \<Rightarrow> unit result" where
  "pcap_enable sim dev filePrefix EnablePcap =
     (if \<not> ValidateSim sim \<or> dev = 0 \<or> filePrefix = None then Returns NS3_ERR sim ()
      else (case GetDevice sim dev of
              (None, sim') \<Rightarrow> Returns NS3_ERR sim' ()
            | (Some device, sim') \<Rightarrow>
                (case EnablePcap of
                   Completes _ \<Rightarrow> Returns NS3_OK sim' ()
                 | Throws e \<Rightarrow> catch_std_exception ''pcap_enable'' sim' () e)))"

definition flowmon_install_all :: "ns3_sim \<Rightarrow> out_ptr \<Rightarrow> unit ext \<Rightarrow> handle option result" where
  "flowmon_install_all sim outFlowMon InstallAll =
     (if \<not> ValidateSim sim \<or> outFlowMon = NullPtr then Returns NS3_ERR sim None
      else (case InstallAll of
              Throws e \<Rightarrow> catch_std_exception ''flowmon_install_all'' sim None e
            | Completes _ \<Rightarrow>
                deref sim (\<lambda>s.
                  let fid = nextFlowMonId s;
                      s1 = s\<lparr>nextFlowMonId := fid + 1\<rparr>;
                      s2 = s1\<lparr>flowMons := (flowMons s1)(fid \<mapsto> FlowMonitor)\<rparr>
                  in Returns NS3_OK (Some s2) (Some (IdToFlowMonHandle fid)))))"

text \<open>
  One entry of the map \<^verbatim>\<open>monitor->GetFlowStats()\<close> hands back: the simulator's per-flow
  record, its counters already widened to the 64-bit accumulators of the shim and its
  two times already converted by \<^verbatim>\<open>GetSeconds()\<close>. Seconds are real numbers here; the
  rounding of \<^verbatim>\<open>double\<close> is not modelled.
\<close>

record FlowStats =
  flow_txPackets :: u64
  flow_rxPackets :: u64
  flow_txBytes :: u64
  flow_rxBytes :: u64
  flow_delaySum :: real
  flow_jitterSum :: real

type_synonym FlowId = u32

text \<open>\<^verbatim>\<open>typedef struct { ... } ns3_flow_stats\<close> of the header.\<close>

record ns3_flow_stats =
  txPackets :: u64
  rxPackets :: u64
  txBytes :: u64
  rxBytes :: u64
  delaySumSec :: real
  jitterSumSec :: real
  flowCount :: u32

text \<open>
  The loop \<^verbatim>\<open>for (auto& flow : stats)\<close> of \<^verbatim>\<open>flowmon_collect\<close> over the map in key
  order, on the six local accumulators
  \<open>(txPackets, rxPackets, txBytes, rxBytes, delaySum, jitterSum)\<close>. Both time
  statements of the body add to the local \<^verbatim>\<open>delaySum\<close>:
  \<^verbatim>\<open>delaySum += flow.second.delaySum.GetSeconds(); delaySum += flow.second.jitterSum.GetSeconds();\<close>
\<close>

fun sum_flows ::
  "(FlowId \<times> FlowStats) list \<Rightarrow> u64 \<times> u64 \<times> u64 \<times> u64 \<times> real \<times> real \<Rightarrow>
   u64 \<times> u64 \<times> u64 \<times> u64 \<times> real \<times> real" where
  "sum_flows [] acc = acc"
| "sum_flows ((flowId, flow) # rest) (accTxPackets, accRxPackets, accTxBytes, accRxBytes, delaySum, jitterSum) =
     sum_flows rest
       (accTxPackets + flow_txPackets flow,
        accRxPackets + flow_rxPackets flow,
        accTxBytes + flow_txBytes flow,
        accRxBytes + flow_rxBytes flow,
        (delaySum + flow_delaySum flow) + flow_jitterSum flow,
        jitterSum)"

text \<open>
  \<^verbatim>\<open>flowmon_collect\<close>. \<open>GetFlowStats\<close> is the behaviour of the simulator calls: they
  throw, or they complete and hand back the per-flow map, listed in key order.
\<close>

definition flowmon_collect ::
  "ns3_sim \<Rightarrow> handle \<Rightarrow> out_ptr \<Rightarrow> (FlowId \<times> FlowStats) list ext \<Rightarrow> ns3_flow_stats option result" where
  "flowmon_collect sim fm outStats GetFlowStats =
     (if \<not> ValidateSim sim \<or> fm = 0 \<or> outStats = NullPtr then Returns NS3_ERR sim None
      else (case GetFlowMon sim fm of
              (None, sim') \<Rightarrow> Returns NS3_ERR sim' None
            | (Some monitor, sim') \<Rightarrow>
                (case GetFlowStats of
                   Throws e \<Rightarrow> catch_std_exception ''flowmon_collect'' sim' None e
                 | Completes stats \<Rightarrow>
                     (case sum_flows stats (0, 0, 0, 0, 0, 0) of
                        (accTxPackets, accRxPackets, accTxBytes, accRxBytes, delaySum, jitterSum) \<Rightarrow>
                          Returns NS3_OK sim'
                            (Some \<lparr> txPackets = accTxPackets, rxPackets = accRxPackets,
                                    txBytes = accTxBytes, rxBytes = accRxBytes,
                                    delaySumSec = delaySum, jitterSumSec = jitterSum,
                                    flowCount = of_nat (length stats) \<rparr>)))))"

subsection \<open>Configuration\<close>

text \<open>
  \<^verbatim>\<open>ns3_attr\<close>: the discriminator and the members of the anonymous union (\<^verbatim>\<open>u\<close>, \<^verbatim>\<open>d\<close>,
  \<^verbatim>\<open>s\<close>, \<^verbatim>\<open>b\<close>; the source reads only the member its \<^verbatim>\<open>kind\<close> selects). The
  discriminator crosses the ABI as an integer, so a caller can pass any value.
\<close>

record ns3_attr =
  attr_kind :: int
  attr_u :: u64
  attr_d :: real
  attr_s :: "string option"
  attr_b :: int

definition NS3_ATTR_BOOL :: int where "NS3_ATTR_BOOL = 0"
definition NS3_ATTR_UINT :: int where "NS3_ATTR_UINT = 1"
definition NS3_ATTR_DOUBLE :: int where "NS3_ATTR_DOUBLE = 2"
definition NS3_ATTR_STRING :: int where "NS3_ATTR_STRING = 3"

text \<open>\<^verbatim>\<open>Config::Set(fullPath, ...); break;\<close> followed by \<^verbatim>\<open>return NS3_OK\<close>, inside the \<^verbatim>\<open>try\<close>.\<close>

definition Config_Set :: "ns3_sim \<Rightarrow> unit ext \<Rightarrow> unit result" where
  "Config_Set sim SetAttr =
     (case SetAttr of
        Completes _ \<Rightarrow> Returns NS3_OK sim ()
      | Throws e \<Rightarrow> catch_std_exception ''config_set'' sim () e)"

definition config_set ::
  "ns3_sim \<Rightarrow> string option \<Rightarrow> string option \<Rightarrow> ns3_attr \<Rightarrow> unit ext \<Rightarrow> unit result" where
  "config_set sim path attrName val SetAttr =
     (if \<not> ValidateSim sim \<or> path = None \<or> attrName = None then Returns NS3_ERR sim ()
      else if attr_kind val = NS3_ATTR_BOOL then Config_Set sim SetAttr
      else if attr_kind val = NS3_ATTR_UINT then Config_Set sim SetAttr
      else if attr_kind val = NS3_ATTR_DOUBLE then Config_Set sim SetAttr
      else if attr_kind val = NS3_ATTR_STRING then
        (if attr_s val = None then Returns NS3_ERR sim () else Config_Set sim SetAttr)
      else deref sim (\<lambda>s. Returns NS3_ERR (Some (SetError s ''Invalid attribute kind'')) ()))"

subsection \<open>Sequences of calls on one simulation\<close>

text \<open>
  A call of an entry point on a simulation, with its arguments and with the behaviour of
  the simulator during the call. \<^verbatim>\<open>sim_create\<close> and \<^verbatim>\<open>sim_destroy\<close> begin and end the
  life of the context and are not among them.
\<close>

datatype call =
    Ns3LastError out_ptr u64
  | SimSetSeed u32 "unit ext"
  | SimRun "ns3_sim_t \<Rightarrow> unit ext"
  | SimStop real "unit ext"
  | SimIsRunning out_ptr
  | SimNow out_ptr "real ext"
  | SimSchedule real callback nat "unit ext"
  | NodesCreate u32 out_ptr "unit ext"
  | InternetInstall "handle list option" u32 "unit ext"
  | P2pInstall handle handle "string option" "string option" u32 out_ptr out_ptr "unit ext"
  | CsmaInstall "handle list option" u32 "string option" "string option" out_ptr "unit ext"
  | WifiInstallStaAp "handle list option" u32 handle int "string option" int out_ptr out_ptr "unit ext"
  | MobilitySetConstantPosition handle real real real "unit ext"
  | Ipv4Assign "handle list option" u32 "string option" "string option" "unit ext"
  | Ipv4PopulateRoutingTables "unit ext"
  | AppUdpechoServer handle u16 out_ptr "unit ext"
  | AppUdpechoClient handle "string option" u16 u32 real u32 out_ptr "unit ext"
  | AppStart handle real "unit ext"
  | AppStop handle real "unit ext"
  | TraceSubscribePacketEvents handle callback callback nat "unit ext"
  | PcapEnable handle "string option" "unit ext"
  | FlowmonInstallAll out_ptr "unit ext"
  | FlowmonCollect handle out_ptr "(FlowId \<times> FlowStats) list ext"
  | ConfigSet "string option" "string option" ns3_attr "unit ext"

text \<open>What a call stores through its output pointers, handles in the order written.\<close>

datatype out_value =
    NoOutput
  | NodeHandles "handle list"
  | DeviceHandles "handle list"
  | AppHandles "handle list"
  | FlowMonHandles "handle list"
  | RunningFlag "int option"
  | TimeSec "real option"
  | Stats "ns3_flow_stats option"
  | ErrorText string

fun written :: "'a option \<Rightarrow> 'a list" where
  "written None = []"
| "written (Some x) = [x]"

fun written_pair :: "('a \<times> 'a) option \<Rightarrow> 'a list" where
  "written_pair None = []"
| "written_pair (Some (x, y)) = [x, y]"

fun exec :: "ns3_sim \<Rightarrow> call \<Rightarrow> out_value result" where
  "exec sim (Ns3LastError buf len) =
     (case ns3_last_error sim buf len of (st, bytes) \<Rightarrow> Returns st sim (ErrorText bytes))"
| "exec sim (SimSetSeed seed e) = map_result (\<lambda>_. NoOutput) (sim_set_seed sim seed e)"
| "exec sim (SimRun Run) = map_result (\<lambda>_. NoOutput) (sim_run sim Run)"
| "exec sim (SimStop atTimeSec e) = map_result (\<lambda>_. NoOutput) (sim_stop sim atTimeSec e)"
| "exec sim (SimIsRunning outIsRunning) = map_result RunningFlag (sim_is_running sim outIsRunning)"
| "exec sim (SimNow outTimeSec e) = map_result TimeSec (sim_now sim outTimeSec e)"
| "exec sim (SimSchedule inSeconds cb user e) =
     map_result (\<lambda>_. NoOutput) (sim_schedule sim inSeconds cb user e)"
| "exec sim (NodesCreate count outArray e) = map_result NodeHandles (nodes_create sim count outArray e)"
| "exec sim (InternetInstall nodes_arr count e) =
     map_result (\<lambda>_. NoOutput) (internet_install sim nodes_arr count e)"
| "exec sim (P2pInstall a b dataRate delay mtu outDevA outDevB e) =
     map_result (\<lambda>out. DeviceHandles (written_pair out))
       (p2p_install sim a b dataRate delay mtu outDevA outDevB e)"
| "exec sim (CsmaInstall nodes_arr count dataRate delay outDevices e) =
     map_result DeviceHandles (csma_install sim nodes_arr count dataRate delay outDevices e)"
| "exec sim (WifiInstallStaAp stas staCount ap phyStandard dataRate channelNumber outStaDevices outApDevice e) =
     map_result (\<lambda>(stas_out, ap_out). DeviceHandles (stas_out @ written ap_out))
       (wifi_install_sta_ap sim stas staCount ap phyStandard dataRate channelNumber
          outStaDevices outApDevice e)"
| "exec sim (MobilitySetConstantPosition node x y z e) =
     map_result (\<lambda>_. NoOutput) (mobility_set_constant_position sim node x y z e)"
| "exec sim (Ipv4Assign devices_arr count networkBase netmask e) =
     map_result (\<lambda>_. NoOutput) (ipv4_assign sim devices_arr count networkBase netmask e)"
| "exec sim (Ipv4PopulateRoutingTables e) =
     map_result (\<lambda>_. NoOutput) (ipv4_populate_routing_tables sim e)"
| "exec sim (AppUdpechoServer node port outApp e) =
     map_result (\<lambda>out. AppHandles (written out)) (app_udpecho_server sim node port outApp e)"
| "exec sim (AppUdpechoClient node dstIp port packetSize intervalSec maxPackets outApp e) =
     map_result (\<lambda>out. AppHandles (written out))
       (app_udpecho_client sim node dstIp port packetSize intervalSec maxPackets outApp e)"
| "exec sim (AppStart app atTimeSec e) = map_result (\<lambda>_. NoOutput) (app_start sim app atTimeSec e)"
| "exec sim (AppStop app atTimeSec e) = map_result (\<lambda>_. NoOutput) (app_stop sim app atTimeSec e)"
| "exec sim (TraceSubscribePacketEvents dev onTx onRx user e) =
     map_result (\<lambda>_. NoOutput) (trace_subscribe_packet_events sim dev onTx onRx user e)"
| "exec sim (PcapEnable dev filePrefix e) = map_result (\<lambda>_. NoOutput) (pcap_enable sim dev filePrefix e)"
| "exec sim (FlowmonInstallAll outFlowMon e) =
     map_result (\<lambda>out. FlowMonHandles (written out)) (flowmon_install_all sim outFlowMon e)"
| "exec sim (FlowmonCollect fm outStats e) = map_result Stats (flowmon_collect sim fm outStats e)"
| "exec sim (ConfigSet path attrName val e) = map_result (\<lambda>_. NoOutput) (config_set sim path attrName val e)"

text \<open>
  A sequence of calls, each on the context the one before left. The result is the final
  context with the status and output of every call, or \<open>None\<close> when some call of the
  sequence did not return (an exception left it, or it faulted).
\<close>

fun run :: "ns3_sim \<Rightarrow> call list \<Rightarrow> (ns3_sim \<times> (ns3_status \<times> out_value) list) option" where
  "run sim [] = Some (sim, [])"
| "run sim (c # cs) =
     (case exec sim c of
        Returns st sim' out \<Rightarrow>
          (case run sim' cs of
             None \<Rightarrow> None
           | Some (sim'', outs) \<Rightarrow> Some (sim'', (st, out) # outs))
      | Propagates e sim' \<Rightarrow> None
      | Fault f \<Rightarrow> None)"

text \<open>The four entity kinds and the handles a sequence of calls issued for each.\<close>

datatype kind = NodeKind | DeviceKind | AppKind | FlowMonKind

fun issued_by :: "kind \<Rightarrow> out_value \<Rightarrow> handle list" where
  "issued_by NodeKind (NodeHandles hs) = hs"
| "issued_by DeviceKind (DeviceHandles hs) = hs"
| "issued_by AppKind (AppHandles hs) = hs"
| "issued_by FlowMonKind (FlowMonHandles hs) = hs"
| "issued_by k out = []"

definition issued :: "kind \<Rightarrow> (ns3_status \<times> out_value) list \<Rightarrow> u64 list" where
  "issued k outs = map HandleToId (concat (map (\<lambda>(st, out). issued_by k out) outs))"

text \<open>The ID counter of a kind.\<close>

fun next_id :: "kind \<Rightarrow> ns3_sim_t \<Rightarrow> u64" where
  "next_id NodeKind s = nextNodeId s"
| "next_id DeviceKind s = nextDeviceId s"
| "next_id AppKind s = nextAppId s"
| "next_id FlowMonKind s = nextFlowMonId s"

text \<open>
  What the proofs below establish of every call that returns, from the context \<open>s\<close> to
  the context \<open>s'\<close> with status \<open>st\<close> and output \<open>ov\<close>: a successful call leaves the
  error slot alone, the running flag is not left set, and the handles written are the
  consecutive values of the kind's counter, which advances by their number.
\<close>

definition call_effect :: "ns3_sim_t \<Rightarrow> ns3_status \<Rightarrow> ns3_sim_t \<Rightarrow> out_value \<Rightarrow> bool" where
  "call_effect s st s' ov \<longleftrightarrow>
     (st = NS3_OK \<longrightarrow> lastError s' = lastError s) \<and>
     (\<not> isRunning s \<longrightarrow> \<not> isRunning s') \<and>
     (\<forall>k. issued_by k ov = map (\<lambda>i. next_id k s + of_nat i) [0..<length (issued_by k ov)] \<and>
          next_id k s' = next_id k s + of_nat (length (issued_by k ov)))"

subsection \<open>An example scenario\<close>

text \<open>Two nodes, a point-to-point link between them, then a third node.\<close>

definition example_topology :: "call list" where
  "example_topology =
     [NodesCreate 2 ValidPtr (Completes ()),
      P2pInstall 1 2 (Some ''5Mbps'') (Some ''2ms'') 1500 ValidPtr ValidPtr (Completes ()),
      NodesCreate 1 ValidPtr (Completes ())]"

section \<open>Properties\<close>

subsection \<open>The registration and lookup loops\<close>

text \<open>
  A registration loop writes the consecutive values of its counter and changes nothing
  but that counter and its registry.
\<close>

lemma upt_0_Suc_shift: "map f [0..<Suc n] = f 0 # map (\<lambda>i. f (Suc i)) [0..<n]"
  by (simp add: upt_conv_Cons map_Suc_upt [symmetric] comp_def del: upt_Suc)

lemma register_nodes_spec:
  "register_nodes ns s = (s', out) \<Longrightarrow>
   out = map (\<lambda>i. nextNodeId s + of_nat i) [0..<length ns] \<and>
   nextNodeId s' = nextNodeId s + of_nat (length ns) \<and>
   lastError s' = lastError s \<and> isRunning s' = isRunning s \<and>
   nextDeviceId s' = nextDeviceId s \<and> nextAppId s' = nextAppId s \<and>
   nextFlowMonId s' = nextFlowMonId s"
proof (induction ns arbitrary: s s' out)
  case Nil
  then show ?case by simp
next
  case (Cons n ns)
  obtain s3 out3 where r: "register_nodes ns
      (s\<lparr>nextNodeId := nextNodeId s + 1, nodes := (nodes s)(nextNodeId s \<mapsto> n)\<rparr>) = (s3, out3)"
    by (cases "register_nodes ns
      (s\<lparr>nextNodeId := nextNodeId s + 1, nodes := (nodes s)(nextNodeId s \<mapsto> n)\<rparr>)") 
  from Cons.prems r have e: "s' = s3" "out = IdToNodeHandle (nextNodeId s) # out3"
    by (simp_all add: Let_def)
  from Cons.IH [OF r] e show ?case
    by (simp add: upt_0_Suc_shift IdToNodeHandle_def add.assoc del: upt_Suc)
qed

lemma register_devices_spec:
  "register_devices ds s = (s', out) \<Longrightarrow>
   out = map (\<lambda>i. nextDeviceId s + of_nat i) [0..<length ds] \<and>
   nextDeviceId s' = nextDeviceId s + of_nat (length ds) \<and>
   lastError s' = lastError s \<and> isRunning s' = isRunning s \<and>
   nextNodeId s' = nextNodeId s \<and> nextAppId s' = nextAppId s \<and>
   nextFlowMonId s' = nextFlowMonId s"
proof (induction ds arbitrary: s s' out)
  case Nil
  then show ?case by simp
next
  case (Cons d ds)
  obtain s3 out3 where r: "register_devices ds
      (s\<lparr>nextDeviceId := nextDeviceId s + 1, devices := (devices s)(nextDeviceId s \<mapsto> d)\<rparr>) = (s3, out3)"
    by (cases "register_devices ds
      (s\<lparr>nextDeviceId := nextDeviceId s + 1, devices := (devices s)(nextDeviceId s \<mapsto> d)\<rparr>)") 
  from Cons.prems r have e: "s' = s3" "out = IdToDeviceHandle (nextDeviceId s) # out3"
    by (simp_all add: Let_def)
  from Cons.IH [OF r] e show ?case
    by (simp add: upt_0_Suc_shift IdToDeviceHandle_def add.assoc del: upt_Suc)
qed

text \<open>
  A lookup leaves the context alone, except that a miss on a non-null handle overwrites
  the error slot with the message of the kind.
\<close>

lemma GetNode_cases:
  "GetNode (Some s) h = (r, sim') \<Longrightarrow>
   (r \<noteq> None \<and> sim' = Some s) \<or>
   (r = None \<and> (sim' = Some s \<or> sim' = Some (SetError s ''Invalid node handle'')))"
  by (auto simp: GetNode_def split: if_splits option.splits)

lemma GetDevice_cases:
  "GetDevice (Some s) h = (r, sim') \<Longrightarrow>
   (r \<noteq> None \<and> sim' = Some s) \<or>
   (r = None \<and> (sim' = Some s \<or> sim' = Some (SetError s ''Invalid device handle'')))"
  by (auto simp: GetDevice_def split: if_splits option.splits)

lemma GetApp_cases:
  "GetApp (Some s) h = (r, sim') \<Longrightarrow>
   (r \<noteq> None \<and> sim' = Some s) \<or>
   (r = None \<and> (sim' = Some s \<or> sim' = Some (SetError s ''Invalid application handle'')))"
  by (auto simp: GetApp_def split: if_splits option.splits)

lemma GetFlowMon_cases:
  "GetFlowMon (Some s) h = (r, sim') \<Longrightarrow>
   (r \<noteq> None \<and> sim' = Some s) \<or>
   (r = None \<and> (sim' = Some s \<or> sim' = Some (SetError s ''Invalid flow monitor handle'')))"
  by (auto simp: GetFlowMon_def split: if_splits option.splits)

lemma lookup_nodes_cases:
  "lookup_nodes (Some s) hs = (r, sim') \<Longrightarrow>
   (r \<noteq> None \<and> sim' = Some s) \<or>
   (r = None \<and> (sim' = Some s \<or> sim' = Some (SetError s ''Invalid node handle'')))"
proof (induction hs arbitrary: r sim')
  case Nil
  then show ?case by auto
next
  case (Cons h hs)
  obtain r1 sim1 where g: "GetNode (Some s) h = (r1, sim1)"
    by (cases "GetNode (Some s) h")
  show ?case
  proof (cases r1)
    case None
    with Cons.prems g GetNode_cases [OF g] show ?thesis by auto
  next
    case (Some n)
    with GetNode_cases [OF g] have s1: "sim1 = Some s" by simp
    obtain r2 sim2 where l: "lookup_nodes (Some s) hs = (r2, sim2)"
      by (cases "lookup_nodes (Some s) hs")
    from Cons.IH [OF l] Cons.prems g Some s1 l show ?thesis
      by (auto split: option.splits)
  qed
qed

lemma lookup_devices_cases:
  "lookup_devices (Some s) hs = (r, sim') \<Longrightarrow>
   (r \<noteq> None \<and> sim' = Some s) \<or>
   (r = None \<and> (sim' = Some s \<or> sim' = Some (SetError s ''Invalid device handle'')))"
proof (induction hs arbitrary: r sim')
  case Nil
  then show ?case by auto
next
  case (Cons h hs)
  obtain r1 sim1 where g: "GetDevice (Some s) h = (r1, sim1)"
    by (cases "GetDevice (Some s) h")
  show ?case
  proof (cases r1)
    case None
    with Cons.prems g GetDevice_cases [OF g] show ?thesis by auto
  next
    case (Some n)
    with GetDevice_cases [OF g] have s1: "sim1 = Some s" by simp
    obtain r2 sim2 where l: "lookup_devices (Some s) hs = (r2, sim2)"
      by (cases "lookup_devices (Some s) hs")
    from Cons.IH [OF l] Cons.prems g Some s1 l show ?thesis
      by (auto split: option.splits)
  qed
qed

subsection \<open>The effect of every entry point\<close>

lemma all_kind: "(\<forall>k. P k) \<longleftrightarrow> P NodeKind \<and> P DeviceKind \<and> P AppKind \<and> P FlowMonKind"
  by (metis kind.exhaust)

lemmas op_simps = ValidateSim_def deref_def catch_std_exception_def SetError_def
  call_effect_def all_kind

lemmas op_splits = if_splits option.splits ext.splits exn.splits prod.splits

lemma sim_set_seed_effect:
  "sim_set_seed (Some s) seed e = Returns st sim' out \<Longrightarrow>
   \<exists>s'. sim' = Some s' \<and> call_effect s st s' NoOutput"
  by (auto simp: sim_set_seed_def op_simps split: op_splits)

lemma sim_run_effect:
  "sim_run (Some s) Run = Returns st sim' out \<Longrightarrow>
   \<exists>s'. sim' = Some s' \<and> call_effect s st s' NoOutput"
  by (auto simp: sim_run_def op_simps Let_def split: op_splits)

lemma sim_stop_effect:
  "sim_stop (Some s) t e = Returns st sim' out \<Longrightarrow>
   \<exists>s'. sim' = Some s' \<and> call_effect s st s' NoOutput"
  by (auto simp: sim_stop_def op_simps split: op_splits)

lemma sim_is_running_effect:
  "sim_is_running (Some s) p = Returns st sim' out \<Longrightarrow>
   \<exists>s'. sim' = Some s' \<and> call_effect s st s' (RunningFlag out)"
  by (auto simp: sim_is_running_def op_simps split: op_splits)

lemma sim_now_effect:
  "sim_now (Some s) p e = Returns st sim' out \<Longrightarrow>
   \<exists>s'. sim' = Some s' \<and> call_effect s st s' (TimeSec out)"
  by (auto simp: sim_now_def op_simps split: op_splits)

lemma sim_schedule_effect:
  "sim_schedule (Some s) t cb u e = Returns st sim' out \<Longrightarrow>
   \<exists>s'. sim' = Some s' \<and> call_effect s st s' NoOutput"
  by (auto simp: sim_schedule_def op_simps split: op_splits)

lemma nodes_create_effect:
  "nodes_create (Some s) count p e = Returns st sim' out \<Longrightarrow>
   \<exists>s'. sim' = Some s' \<and> call_effect s st s' (NodeHandles out)"
  by (auto simp: nodes_create_def op_simps split: op_splits dest!: register_nodes_spec)

lemma internet_install_effect:
  "internet_install (Some s) arr count e = Returns st sim' out \<Longrightarrow>
   \<exists>s'. sim' = Some s' \<and> call_effect s st s' NoOutput"
  by (auto simp: internet_install_def op_simps split: op_splits dest!: lookup_nodes_cases)


lemma p2p_install_effect:
  "p2p_install (Some s) a b dataRate delay mtu pa pb e = Returns st sim' out \<Longrightarrow>
   \<exists>s'. sim' = Some s' \<and> call_effect s st s' (DeviceHandles (written_pair out))"
  by (auto simp: p2p_install_def op_simps Let_def IdToDeviceHandle_def
           split: op_splits dest!: GetNode_cases)

lemma csma_install_effect:
  "csma_install (Some s) arr count dataRate delay p e = Returns st sim' out \<Longrightarrow>
   \<exists>s'. sim' = Some s' \<and> call_effect s st s' (DeviceHandles out)"
  by (auto simp: csma_install_def op_simps split: op_splits
           dest!: lookup_nodes_cases register_devices_spec)

lemma wifi_install_sta_ap_effect:
  "wifi_install_sta_ap (Some s) stas staCount ap std dataRate ch p1 p2 e = Returns st sim' out \<Longrightarrow>
   \<exists>s'. sim' = Some s' \<and> call_effect s st s' (DeviceHandles (fst out @ written (snd out)))"
  by (auto simp: wifi_install_sta_ap_def op_simps Let_def IdToDeviceHandle_def
           split: op_splits dest!: lookup_nodes_cases GetNode_cases register_devices_spec)

lemma mobility_set_constant_position_effect:
  "mobility_set_constant_position (Some s) node x y z e = Returns st sim' out \<Longrightarrow>
   \<exists>s'. sim' = Some s' \<and> call_effect s st s' NoOutput"
  by (auto simp: mobility_set_constant_position_def op_simps split: op_splits dest!: GetNode_cases)

lemma ipv4_assign_effect:
  "ipv4_assign (Some s) arr count base netmask e = Returns st sim' out \<Longrightarrow>
   \<exists>s'. sim' = Some s' \<and> call_effect s st s' NoOutput"
  by (auto simp: ipv4_assign_def op_simps split: op_splits dest!: lookup_devices_cases)

lemma ipv4_populate_routing_tables_effect:
  "ipv4_populate_routing_tables (Some s) e = Returns st sim' out \<Longrightarrow>
   \<exists>s'. sim' = Some s' \<and> call_effect s st s' NoOutput"
  by (auto simp: ipv4_populate_routing_tables_def op_simps split: op_splits)

lemma app_udpecho_server_effect:
  "app_udpecho_server (Some s) node port p e = Returns st sim' out \<Longrightarrow>
   \<exists>s'. sim' = Some s' \<and> call_effect s st s' (AppHandles (written out))"
  by (auto simp: app_udpecho_server_def op_simps Let_def IdToAppHandle_def
           split: op_splits dest!: GetNode_cases)

lemma app_udpecho_client_effect:
  "app_udpecho_client (Some s) node dstIp port psize interval maxPackets p e = Returns st sim' out \<Longrightarrow>
   \<exists>s'. sim' = Some s' \<and> call_effect s st s' (AppHandles (written out))"
  by (auto simp: app_udpecho_client_def op_simps Let_def IdToAppHandle_def
           split: op_splits dest!: GetNode_cases)

lemma app_start_effect:
  "app_start (Some s) app t e = Returns st sim' out \<Longrightarrow>
   \<exists>s'. sim' = Some s' \<and> call_effect s st s' NoOutput"
  by (auto simp: app_start_def op_simps split: op_splits dest!: GetApp_cases)

lemma app_stop_effect:
  "app_stop (Some s) app t e = Returns st sim' out \<Longrightarrow>
   \<exists>s'. sim' = Some s' \<and> call_effect s st s' NoOutput"
  by (auto simp: app_stop_def op_simps split: op_splits dest!: GetApp_cases)

lemma trace_subscribe_packet_events_effect:
  "trace_subscribe_packet_events (Some s) dev onTx onRx user e = Returns st sim' out \<Longrightarrow>
   \<exists>s'. sim' = Some s' \<and> call_effect s st s' NoOutput"
  by (auto simp: trace_subscribe_packet_events_def op_simps split: op_splits dest!: GetDevice_cases)

lemma pcap_enable_effect:
  "pcap_enable (Some s) dev prefix e = Returns st sim' out \<Longrightarrow>
   \<exists>s'. sim' = Some s' \<and> call_effect s st s' NoOutput"
  by (auto simp: pcap_enable_def op_simps split: op_splits dest!: GetDevice_cases)

lemma flowmon_install_all_effect:
  "flowmon_install_all (Some s) p e = Returns st sim' out \<Longrightarrow>
   \<exists>s'. sim' = Some s' \<and> call_effect s st s' (FlowMonHandles (written out))"
  by (auto simp: flowmon_install_all_def op_simps Let_def IdToFlowMonHandle_def split: op_splits)

lemma flowmon_collect_effect:
  "flowmon_collect (Some s) fm p e = Returns st sim' out \<Longrightarrow>
   \<exists>s'. sim' = Some s' \<and> call_effect s st s' (Stats out)"
  by (auto simp: flowmon_collect_def op_simps split: op_splits dest!: GetFlowMon_cases)

lemma config_set_effect:
  "config_set (Some s) path name v e = Returns st sim' out \<Longrightarrow>
   \<exists>s'. sim' = Some s' \<and> call_effect s st s' NoOutput"
  by (auto simp: config_set_def Config_Set_def op_simps split: op_splits)

lemma ns3_last_error_effect: "call_effect s st s (ErrorText bytes)"
  by (simp add: call_effect_def all_kind)

lemma map_result_Returns:
  "map_result f r = Returns st sim' ov \<Longrightarrow> \<exists>out. r = Returns st sim' out \<and> ov = f out"
  by (cases r) auto

lemma exec_effect:
  assumes "exec (Some s) c = Returns st sim' ov"
  shows "\<exists>s'. sim' = Some s' \<and> call_effect s st s' ov"
proof (cases c)
  case (Ns3LastError buf len)
  with assms show ?thesis using ns3_last_error_effect by (auto split: prod.splits)
next
  case (WifiInstallStaAp stas staCount ap std dataRate ch p1 p2 e)
  with assms show ?thesis
    using wifi_install_sta_ap_effect [of s stas staCount ap std dataRate ch p1 p2 e st sim']
    by (auto dest!: map_result_Returns simp: case_prod_beta)
qed (use assms in \<open>auto dest!: map_result_Returns sim_set_seed_effect sim_run_effect sim_stop_effect
       sim_is_running_effect sim_now_effect sim_schedule_effect nodes_create_effect
       internet_install_effect p2p_install_effect csma_install_effect
       mobility_set_constant_position_effect ipv4_assign_effect
       ipv4_populate_routing_tables_effect app_udpecho_server_effect app_udpecho_client_effect
       app_start_effect app_stop_effect trace_subscribe_packet_events_effect pcap_enable_effect
       flowmon_install_all_effect flowmon_collect_effect config_set_effect\<close>)


subsection \<open>Sequences of calls\<close>

text \<open>
  Along a sequence of calls that all return, the effects of the single calls compose:
  the handles issued for a kind are the consecutive values of its counter from where it
  stood at the start.
\<close>

lemma sim_create_fresh:
  "sim_create ValidPtr (Completes ()) = Returns NS3_OK (Some new_ns3_sim_t) ()"
  by (simp add: sim_create_def)

lemma consecutive_append:
  "map (\<lambda>i. a + of_nat i) [0..<m] @ map (\<lambda>i. (a + of_nat m) + of_nat i) [0..<n]
     = map (\<lambda>i. (a :: u64) + of_nat i) [0..<m + n]"
proof (induction n)
  case 0
  then show ?case by simp
next
  case (Suc n)
  have "[0..<m + Suc n] = [0..<m + n] @ [m + n]"
    by simp
  with Suc show ?case
    by (simp add: add.assoc flip: append_assoc)
qed

lemma map_HandleToId: "map HandleToId hs = hs"
  by (induction hs) (simp_all add: HandleToId_def)

lemma issued_Cons:
  "issued k ((st, ov) # outs) = issued_by k ov @ issued k outs"
  by (simp add: issued_def map_HandleToId)

lemma run_effect:
  "run (Some s) cs = Some (sim', outs) \<Longrightarrow>
   \<exists>s'. sim' = Some s' \<and>
     (list_all (\<lambda>(st, ov). st = NS3_OK) outs \<longrightarrow> lastError s' = lastError s) \<and>
     (\<not> isRunning s \<longrightarrow> \<not> isRunning s') \<and>
     (\<forall>k. issued k outs = map (\<lambda>i. next_id k s + of_nat i) [0..<length (issued k outs)] \<and>
          next_id k s' = next_id k s + of_nat (length (issued k outs)))"
proof (induction cs arbitrary: s sim' outs)
  case Nil
  then show ?case by (auto simp: issued_def)
next
  case (Cons c cs)
  from Cons.prems obtain st sim1 ov outs1 where
    e: "exec (Some s) c = Returns st sim1 ov" and
    r: "run sim1 cs = Some (sim', outs1)" and
    o: "outs = (st, ov) # outs1"
    by (auto split: result.splits option.splits)
  from exec_effect [OF e] obtain s1 where s1: "sim1 = Some s1" and c: "call_effect s st s1 ov"
    by blast
  from Cons.IH [OF r [unfolded s1]] obtain s' where s': "sim' = Some s'"
    and ih1: "list_all (\<lambda>(st, ov). st = NS3_OK) outs1 \<longrightarrow> lastError s' = lastError s1"
    and ih2: "\<not> isRunning s1 \<longrightarrow> \<not> isRunning s'"
    and ih3: "\<And>k. issued k outs1 = map (\<lambda>i. next_id k s1 + of_nat i) [0..<length (issued k outs1)]"
    and ih4: "\<And>k. next_id k s' = next_id k s1 + of_nat (length (issued k outs1))"
    by blast
  from c have c1: "st = NS3_OK \<longrightarrow> lastError s1 = lastError s"
    and c2: "\<not> isRunning s \<longrightarrow> \<not> isRunning s1"
    and c3: "\<And>k. issued_by k ov = map (\<lambda>i. next_id k s + of_nat i) [0..<length (issued_by k ov)]"
    and c4: "\<And>k. next_id k s1 = next_id k s + of_nat (length (issued_by k ov))"
    by (simp_all add: call_effect_def)
  have i: "issued k outs = map (\<lambda>i. next_id k s + of_nat i) [0..<length (issued k outs)]" for k
  proof -
    have "issued k outs = issued_by k ov @ issued k outs1"
      by (simp add: o issued_Cons)
    also have "\<dots> = map (\<lambda>i. next_id k s + of_nat i) [0..<length (issued_by k ov)]
        @ map (\<lambda>i. (next_id k s + of_nat (length (issued_by k ov))) + of_nat i) [0..<length (issued k outs1)]"
      using c3 [of k] ih3 [of k] c4 [of k] by simp
    also have "\<dots> = map (\<lambda>i. next_id k s + of_nat i) [0..<length (issued_by k ov) + length (issued k outs1)]"
      by (rule consecutive_append)
    finally show ?thesis by (simp add: o issued_Cons)
  qed
  have n: "next_id k s' = next_id k s + of_nat (length (issued k outs))" for k
    using ih4 [of k] c4 [of k] by (simp add: o issued_Cons add.assoc)
  from s' ih1 ih2 c1 c2 i n show ?case
    by (simp add: o)
qed


lemma consecutive_from_1: "map (\<lambda>i. (1::u64) + of_nat i) [0..<n] = map of_nat [1..<Suc n]"
proof -
  have "[1..<Suc n] = map Suc [0..<n]"
    by (simp add: map_Suc_upt del: upt_Suc)
  then show ?thesis by (simp add: comp_def del: upt_Suc)
qed

lemma of_nat_strictly_increasing:
  "n < 2 ^ 64 \<Longrightarrow> sorted_wrt (<) (map (of_nat :: nat \<Rightarrow> u64) [1..<Suc n])"
proof -
  assume n: "n < 2 ^ 64"
  have "sorted_wrt (\<lambda>i j. (of_nat i :: u64) < of_nat j) [1..<Suc n]"
  proof (rule sorted_wrt_mono_rel [of _ "(<)"])
    fix i j assume "i \<in> set [1..<Suc n]" "j \<in> set [1..<Suc n]" "i < j"
    with n have "i < 2 ^ 64" "j < 2 ^ 64" by auto
    then have "take_bit 64 i = i" "take_bit 64 j = j"
      by (simp_all add: take_bit_nat_eq_self)
    with \<open>i < j\<close> show "(of_nat i :: u64) < of_nat j"
      by (simp add: of_nat_word_less_iff)
  qed (simp del: upt_Suc)
  then show ?thesis by (simp add: sorted_wrt_map del: upt_Suc)
qed

lemma register_devices_frame:
  "register_devices ds s = (s', out) \<Longrightarrow> h \<notin> set out \<Longrightarrow> devices s' h = devices s h"
proof (induction ds arbitrary: s s' out)
  case Nil
  then show ?case by simp
next
  case (Cons d ds)
  obtain s3 out3 where r: "register_devices ds
      (s\<lparr>nextDeviceId := nextDeviceId s + 1, devices := (devices s)(nextDeviceId s \<mapsto> d)\<rparr>) = (s3, out3)"
    by (cases "register_devices ds
      (s\<lparr>nextDeviceId := nextDeviceId s + 1, devices := (devices s)(nextDeviceId s \<mapsto> d)\<rparr>)")
  from Cons.prems r have e: "s' = s3" "out = IdToDeviceHandle (nextDeviceId s) # out3"
    by (simp_all add: Let_def)
  with Cons.prems(2) have "h \<notin> set out3" "h \<noteq> nextDeviceId s"
    by (simp_all add: IdToDeviceHandle_def)
  with Cons.IH [OF r] e show ?case by simp
qed

lemma register_devices_same:
  "register_devices ds s = (s', out) \<Longrightarrow> \<forall>d\<in>set ds. d = v \<Longrightarrow> h \<in> set out \<Longrightarrow>
   devices s' h = Some v"
proof (induction ds arbitrary: s s' out)
  case Nil
  then show ?case by simp
next
  case (Cons d ds)
  obtain s3 out3 where r: "register_devices ds
      (s\<lparr>nextDeviceId := nextDeviceId s + 1, devices := (devices s)(nextDeviceId s \<mapsto> d)\<rparr>) = (s3, out3)"
    by (cases "register_devices ds
      (s\<lparr>nextDeviceId := nextDeviceId s + 1, devices := (devices s)(nextDeviceId s \<mapsto> d)\<rparr>)")
  from Cons.prems r have e: "s' = s3" "out = IdToDeviceHandle (nextDeviceId s) # out3"
    by (simp_all add: Let_def)
  show ?case
  proof (cases "h \<in> set out3")
    case True
    with Cons.IH [OF r] Cons.prems(2) e show ?thesis by simp
  next
    case False
    with Cons.prems(3) e have "h = nextDeviceId s" by (simp add: IdToDeviceHandle_def)
    with register_devices_frame [OF r False] Cons.prems(2) e show ?thesis by simp
  qed
qed

lemma SetStandard_cases:
  "SetStandard 0 = WIFI_STANDARD_80211a \<and> SetStandard 1 = WIFI_STANDARD_80211b \<and>
   SetStandard 2 = WIFI_STANDARD_80211g \<and> SetStandard 3 = WIFI_STANDARD_80211n \<and>
   SetStandard 4 = WIFI_STANDARD_80211n \<and> SetStandard 5 = WIFI_STANDARD_80211ac \<and>
   (phyStandard < 0 \<or> 5 < phyStandard \<longrightarrow> SetStandard phyStandard = WIFI_STANDARD_80211n)"
  by (auto simp: SetStandard_def)
lemma replicate_2: "replicate 2 x = [x, x]"
  by (simp add: numeral_2_eq_2)

lemma run_example_topology:
  "run (Some new_ns3_sim_t) example_topology =
     Some (Some (new_ns3_sim_t
             \<lparr>nodes := [1 \<mapsto> Node, 2 \<mapsto> Node, 3 \<mapsto> Node], nextNodeId := 4,
              devices := [1 \<mapsto> PointToPointNetDevice, 2 \<mapsto> PointToPointNetDevice],
              nextDeviceId := 3\<rparr>),
           [(NS3_OK, NodeHandles [1, 2]), (NS3_OK, DeviceHandles [1, 2]), (NS3_OK, NodeHandles [3])])"
  by (simp add: example_topology_def nodes_create_def p2p_install_def ValidateSim_def deref_def
        GetNode_def HandleToId_def IdToNodeHandle_def IdToDeviceHandle_def new_ns3_sim_t_def
        Let_def replicate_2)


subsection \<open>Reading the error slot\<close>

lemma take_min_length: "take (min (length xs) n) xs = take n xs"
  by (simp add: min_def)

text \<open>
  Claim C4. \<^verbatim>\<open>ns3_last_error\<close> fails exactly when the buffer pointer is null or the
  length is 0. Otherwise it returns \<^verbatim>\<open>NS3_OK\<close> and stores the message cut to at most
  \<open>len - 1\<close> bytes followed by a NUL, where the message is the literal
  "No simulation context" for a null simulation and the content of the error slot
  (which may be empty) for a simulation.
\<close>

theorem ns3_last_error_contract:
  "(fst (ns3_last_error sim buf len) = NS3_ERR \<longleftrightarrow> buf = NullPtr \<or> len = 0) \<and>
   (buf \<noteq> NullPtr \<and> len \<noteq> 0 \<longrightarrow>
      ns3_last_error sim buf len =
        (NS3_OK,
         take (unat len - 1)
           (case sim of None \<Rightarrow> ''No simulation context'' | Some s \<Rightarrow> lastError s)
         @ [CHR 0x00]))"
  by (auto simp: ns3_last_error_def Let_def GetError_def unat_minus_one take_min_length
           simp del: length_greater_0_conv split: option.splits)

theorem ns3_last_error_contract_witness:
  "ns3_last_error None ValidPtr 6 = (NS3_OK, ''No si'' @ [CHR 0x00]) \<and>
   ns3_last_error (Some (SetError new_ns3_sim_t ''Invalid node handle'')) ValidPtr 64
     = (NS3_OK, ''Invalid node handle'' @ [CHR 0x00]) \<and>
   ns3_last_error (Some new_ns3_sim_t) ValidPtr 1 = (NS3_OK, [CHR 0x00]) \<and>
   fst (ns3_last_error (Some new_ns3_sim_t) ValidPtr 0) = NS3_ERR \<and>
   fst (ns3_last_error (Some new_ns3_sim_t) NullPtr 64) = NS3_ERR"
  using ns3_last_error_contract [of None ValidPtr 6]
    ns3_last_error_contract [of "Some (SetError new_ns3_sim_t ''Invalid node handle'')" ValidPtr 64]
    ns3_last_error_contract [of "Some new_ns3_sim_t" ValidPtr 1]
    ns3_last_error_contract [of "Some new_ns3_sim_t" ValidPtr 0]
    ns3_last_error_contract [of "Some new_ns3_sim_t" NullPtr 64]
  by (simp add: SetError_def new_ns3_sim_t_def)

subsection \<open>Flow statistics\<close>

text \<open>
  What the loop computes from any starting accumulators: the four counters are summed
  field by field, the delay accumulator receives every flow's delay and every flow's
  jitter, and the jitter accumulator is handed back as it came.
\<close>

lemma sum_flows_eq:
  "sum_flows stats (a, b, c, d, delaySum, jitterSum) =
     (a + (\<Sum>(i, f) \<leftarrow> stats. flow_txPackets f),
      b + (\<Sum>(i, f) \<leftarrow> stats. flow_rxPackets f),
      c + (\<Sum>(i, f) \<leftarrow> stats. flow_txBytes f),
      d + (\<Sum>(i, f) \<leftarrow> stats. flow_rxBytes f),
      delaySum + (\<Sum>(i, f) \<leftarrow> stats. flow_delaySum f + flow_jitterSum f),
      jitterSum)"
  by (induction stats arbitrary: a b c d delaySum jitterSum) (auto simp: algebra_simps)

text \<open>
  Claim C1 says that \<^verbatim>\<open>flowmon_collect\<close> writes the sum of the per-flow delays to
  \<^verbatim>\<open>delaySumSec\<close> and the sum of the per-flow jitters to \<^verbatim>\<open>jitterSumSec\<close>. The code
  does not: on a registered flow monitor with the single flow of delay 1 s and jitter
  0.5 s it returns \<^verbatim>\<open>NS3_OK\<close> with \<^verbatim>\<open>delaySumSec\<close> = 1.5 (delay plus jitter) and
  \<^verbatim>\<open>jitterSumSec\<close> = 0, where the claim requires 1 and 0.5.
\<close>

theorem flowmon_collect_folds_jitter_into_delay:
  "flowmon_collect
     (Some (new_ns3_sim_t\<lparr>flowMons := [1 \<mapsto> FlowMonitor], nextFlowMonId := 2\<rparr>)) 1 ValidPtr
     (Completes [(1, \<lparr>flow_txPackets = 5, flow_rxPackets = 5, flow_txBytes = 640, flow_rxBytes = 640,
                      flow_delaySum = 1, flow_jitterSum = 1 / 2\<rparr>)])
   = Returns NS3_OK
       (Some (new_ns3_sim_t\<lparr>flowMons := [1 \<mapsto> FlowMonitor], nextFlowMonId := 2\<rparr>))
       (Some \<lparr>txPackets = 5, rxPackets = 5, txBytes = 640, rxBytes = 640,
              delaySumSec = 3 / 2, jitterSumSec = 0, flowCount = 1\<rparr>)"
  by (simp add: flowmon_collect_def ValidateSim_def GetFlowMon_def HandleToId_def new_ns3_sim_t_def)

text \<open>The two time fields of that output against the sums the claim asks for.\<close>

theorem flowmon_collect_folds_jitter_into_delay_witness:
  "map_result (map_option (\<lambda>out. (delaySumSec out, jitterSumSec out)))
     (flowmon_collect
        (Some (new_ns3_sim_t\<lparr>flowMons := [1 \<mapsto> FlowMonitor], nextFlowMonId := 2\<rparr>)) 1 ValidPtr
        (Completes [(1, \<lparr>flow_txPackets = 5, flow_rxPackets = 5, flow_txBytes = 640, flow_rxBytes = 640,
                         flow_delaySum = 1, flow_jitterSum = 1 / 2\<rparr>)]))
   = Returns NS3_OK
       (Some (new_ns3_sim_t\<lparr>flowMons := [1 \<mapsto> FlowMonitor], nextFlowMonId := 2\<rparr>))
       (Some (3 / 2, 0)) \<and>
   (3 / 2, 0) \<noteq> (1 :: real, 1 / 2 :: real)"
  using flowmon_collect_folds_jitter_into_delay by simp

subsection \<open>ID generation\<close>

text \<open>
  Claim C5. On a fresh simulation, along any sequence of calls that return, the IDs
  issued for each entity kind are 1, 2, 3, ... in the order issued: a strictly increasing
  sequence starting at 1, without 0 and without repetition. The counters are 64-bit, so
  this is stated for fewer than \<open>2 ^ 64\<close> issued IDs; every issued ID also occupies an
  entry of its registry, which is never erased, so no larger number can be reached.
\<close>

theorem issued_ids_count_up_from_1:
  assumes "run (Some new_ns3_sim_t) cs = Some (sim', outs)"
    and "length (issued k outs) < 2 ^ 64"
  shows "issued k outs = map of_nat [1..<Suc (length (issued k outs))] \<and>
         sorted_wrt (<) (issued k outs) \<and> distinct (issued k outs) \<and> 0 \<notin> set (issued k outs)"
proof -
  have one: "next_id k new_ns3_sim_t = 1"
    by (cases k) (simp_all add: new_ns3_sim_t_def)
  from run_effect [OF assms(1)]
  have "issued k outs = map (\<lambda>i. next_id k new_ns3_sim_t + of_nat i) [0..<length (issued k outs)]"
    by blast
  then have e: "issued k outs = map of_nat [1..<Suc (length (issued k outs))]"
    unfolding one consecutive_from_1 .
  have s: "sorted_wrt (<) (map (of_nat :: nat \<Rightarrow> u64) [1..<Suc (length (issued k outs))])"
    using assms(2) by (rule of_nat_strictly_increasing)
  then have d: "distinct (map (of_nat :: nat \<Rightarrow> u64) [1..<Suc (length (issued k outs))])"
    using strict_sorted_iff by blast
  have z: "0 \<notin> set (map (of_nat :: nat \<Rightarrow> u64) [1..<Suc (length (issued k outs))])"
  proof
    assume "0 \<in> set (map (of_nat :: nat \<Rightarrow> u64) [1..<Suc (length (issued k outs))])"
    then obtain i where i: "1 \<le> i" "i \<le> length (issued k outs)" "(of_nat i :: u64) = 0"
      by auto
    with assms(2) have "i < 2 ^ LENGTH(64)" by simp
    with i show False
      by (metis of_nat_neq_0 not_one_le_zero neq0_conv)
  qed
  from e s d z show ?thesis by metis
qed

theorem issued_ids_count_up_from_1_witness:
  "run (Some new_ns3_sim_t) example_topology =
     Some (Some (new_ns3_sim_t
             \<lparr>nodes := [1 \<mapsto> Node, 2 \<mapsto> Node, 3 \<mapsto> Node], nextNodeId := 4,
              devices := [1 \<mapsto> PointToPointNetDevice, 2 \<mapsto> PointToPointNetDevice],
              nextDeviceId := 3\<rparr>),
           [(NS3_OK, NodeHandles [1, 2]), (NS3_OK, DeviceHandles [1, 2]), (NS3_OK, NodeHandles [3])]) \<and>
   issued NodeKind
     [(NS3_OK, NodeHandles [1, 2]), (NS3_OK, DeviceHandles [1, 2]), (NS3_OK, NodeHandles [3])]
     = [1, 2, 3] \<and>
   sorted_wrt (<) [1, 2, 3 :: u64] \<and> distinct [1, 2, 3 :: u64] \<and> 0 \<notin> set [1, 2, 3 :: u64]"
proof -
  let ?outs = "[(NS3_OK, NodeHandles [1, 2]), (NS3_OK, DeviceHandles [1, 2]), (NS3_OK, NodeHandles [3])]"
  have i: "issued NodeKind ?outs = [1, 2, 3]"
    by (simp add: issued_def HandleToId_def)
  then have l: "length (issued NodeKind ?outs) < 2 ^ 64"
    by simp
  from issued_ids_count_up_from_1 [OF run_example_topology l] run_example_topology i
  show ?thesis by simp
qed

subsection \<open>The error slot under successful calls\<close>

text \<open>
  Claim C8. A sequence of calls on a simulation that all return \<^verbatim>\<open>NS3_OK\<close> leaves the
  error slot as it was: only failing calls write it. In particular, started in the
  context a failed call left, the slot still holds that failure's message after any
  number of successful calls.
\<close>

theorem successful_calls_leave_error_slot:
  assumes "run (Some s) cs = Some (sim', outs)"
    and "list_all (\<lambda>(st, ov). st = NS3_OK) outs"
  shows "\<exists>s'. sim' = Some s' \<and> lastError s' = lastError s"
  using run_effect [OF assms(1)] assms(2) by blast

theorem successful_calls_leave_error_slot_witness:
  "internet_install (Some new_ns3_sim_t) (Some [7]) 1 (Completes ())
     = Returns NS3_ERR (Some (new_ns3_sim_t\<lparr>lastError := ''Invalid node handle''\<rparr>)) () \<and>
   run (Some (new_ns3_sim_t\<lparr>lastError := ''Invalid node handle''\<rparr>)) example_topology =
     Some (Some (new_ns3_sim_t
             \<lparr>lastError := ''Invalid node handle'',
              nodes := [1 \<mapsto> Node, 2 \<mapsto> Node, 3 \<mapsto> Node], nextNodeId := 4,
              devices := [1 \<mapsto> PointToPointNetDevice, 2 \<mapsto> PointToPointNetDevice],
              nextDeviceId := 3\<rparr>),
           [(NS3_OK, NodeHandles [1, 2]), (NS3_OK, DeviceHandles [1, 2]), (NS3_OK, NodeHandles [3])]) \<and>
   lastError (new_ns3_sim_t
             \<lparr>lastError := ''Invalid node handle'',
              nodes := [1 \<mapsto> Node, 2 \<mapsto> Node, 3 \<mapsto> Node], nextNodeId := 4,
              devices := [1 \<mapsto> PointToPointNetDevice, 2 \<mapsto> PointToPointNetDevice],
              nextDeviceId := 3\<rparr>) = ''Invalid node handle''"
proof -
  let ?s1 = "new_ns3_sim_t\<lparr>lastError := ''Invalid node handle''\<rparr>"
  let ?s2 = "new_ns3_sim_t
             \<lparr>lastError := ''Invalid node handle'',
              nodes := [1 \<mapsto> Node, 2 \<mapsto> Node, 3 \<mapsto> Node], nextNodeId := 4,
              devices := [1 \<mapsto> PointToPointNetDevice, 2 \<mapsto> PointToPointNetDevice],
              nextDeviceId := 3\<rparr>"
  let ?outs = "[(NS3_OK, NodeHandles [1, 2]), (NS3_OK, DeviceHandles [1, 2]), (NS3_OK, NodeHandles [3])]"
  have f: "internet_install (Some new_ns3_sim_t) (Some [7]) 1 (Completes ())
     = Returns NS3_ERR (Some ?s1) ()"
    by (simp add: internet_install_def ValidateSim_def GetNode_def HandleToId_def SetError_def
          new_ns3_sim_t_def)
  have r: "run (Some ?s1) example_topology = Some (Some ?s2, ?outs)"
    by (simp add: example_topology_def nodes_create_def p2p_install_def ValidateSim_def deref_def
        GetNode_def HandleToId_def IdToNodeHandle_def IdToDeviceHandle_def new_ns3_sim_t_def
        Let_def replicate_2)
  have a: "list_all (\<lambda>(st, ov). st = NS3_OK) ?outs"
    by simp
  from successful_calls_leave_error_slot [OF r a] f r show ?thesis
    by simp
qed

subsection \<open>Destruction\<close>

text \<open>
  Claim C7. \<^verbatim>\<open>sim_destroy(NULL)\<close> returns \<^verbatim>\<open>NS3_OK\<close>. On a simulation, whatever
  \<^verbatim>\<open>Simulator::Destroy()\<close> does (completes, throws a \<^verbatim>\<open>std::exception\<close>, throws anything
  else), the call returns, no exception leaves it, and the context has been deleted;
  the status is \<^verbatim>\<open>NS3_OK\<close> when the teardown completed and \<^verbatim>\<open>NS3_ERR\<close> when it threw.
\<close>

theorem sim_destroy_suppresses:
  "sim_destroy None Destroy = Returns NS3_OK None () \<and>
   sim_destroy (Some s) (Completes ()) = Returns NS3_OK None () \<and>
   sim_destroy (Some s) (Throws e) = Returns NS3_ERR None () \<and>
   (\<exists>st. sim_destroy (Some s) Destroy = Returns st None ())"
  by (cases Destroy) (simp_all add: sim_destroy_def)

subsection \<open>Attribute marshalling\<close>

text \<open>
  Claim C3 says that \<^verbatim>\<open>config_set\<close> writes the error slot both for an unknown kind and
  for a string kind with a null payload. For the null string the code returns
  \<^verbatim>\<open>NS3_ERR\<close> through a bare \<^verbatim>\<open>return\<close>: on a fresh simulation the context comes back
  unchanged and the slot is still empty.
\<close>

theorem config_set_null_string_writes_nothing:
  "config_set (Some new_ns3_sim_t) (Some ''/x'') (Some ''y'')
     \<lparr>attr_kind = NS3_ATTR_STRING, attr_u = 0, attr_d = 0, attr_s = None, attr_b = 0\<rparr> (Completes ())
   = Returns NS3_ERR (Some new_ns3_sim_t) () \<and> lastError new_ns3_sim_t = []"
  by (simp add: config_set_def ValidateSim_def NS3_ATTR_BOOL_def NS3_ATTR_UINT_def
        NS3_ATTR_DOUBLE_def NS3_ATTR_STRING_def new_ns3_sim_t_def)

text \<open>
  Claim C3 as amended. With non-null path and attribute name, whatever the simulator
  would do: a kind outside the four defined tags returns \<^verbatim>\<open>NS3_ERR\<close> and sets the error
  slot to "Invalid attribute kind"; a string kind with a null payload returns \<^verbatim>\<open>NS3_ERR\<close>
  and leaves the context, the error slot included, unchanged.
\<close>

theorem config_set_rejections:
  "path \<noteq> None \<and> attrName \<noteq> None \<longrightarrow>
     (attr_kind v \<notin> {NS3_ATTR_BOOL, NS3_ATTR_UINT, NS3_ATTR_DOUBLE, NS3_ATTR_STRING} \<longrightarrow>
        config_set (Some s) path attrName v e
          = Returns NS3_ERR (Some (s\<lparr>lastError := ''Invalid attribute kind''\<rparr>)) ()) \<and>
     (attr_kind v = NS3_ATTR_STRING \<and> attr_s v = None \<longrightarrow>
        config_set (Some s) path attrName v e = Returns NS3_ERR (Some s) ())"
  by (simp add: config_set_def ValidateSim_def deref_def SetError_def NS3_ATTR_BOOL_def
        NS3_ATTR_UINT_def NS3_ATTR_DOUBLE_def NS3_ATTR_STRING_def)

theorem config_set_rejections_witness:
  "config_set (Some new_ns3_sim_t) (Some ''/x'') (Some ''y'')
     \<lparr>attr_kind = 7, attr_u = 0, attr_d = 0, attr_s = None, attr_b = 0\<rparr> (Completes ())
     = Returns NS3_ERR (Some (new_ns3_sim_t\<lparr>lastError := ''Invalid attribute kind''\<rparr>)) () \<and>
   config_set (Some new_ns3_sim_t) (Some ''/x'') (Some ''y'')
     \<lparr>attr_kind = 3, attr_u = 0, attr_d = 0, attr_s = None, attr_b = 0\<rparr> (Completes ())
     = Returns NS3_ERR (Some new_ns3_sim_t) ()"
  using config_set_rejections [of "Some ''/x''" "Some ''y''"
          "\<lparr>attr_kind = 7, attr_u = 0, attr_d = 0, attr_s = None, attr_b = 0\<rparr>" new_ns3_sim_t "Completes ()"]
        config_set_rejections [of "Some ''/x''" "Some ''y''"
          "\<lparr>attr_kind = 3, attr_u = 0, attr_d = 0, attr_s = None, attr_b = 0\<rparr>" new_ns3_sim_t "Completes ()"]
  by (simp add: NS3_ATTR_BOOL_def NS3_ATTR_UINT_def NS3_ATTR_DOUBLE_def NS3_ATTR_STRING_def)

subsection \<open>Trace subscription on a device that is not point-to-point\<close>

text \<open>
  Claim C10. For a registered device that is not a point-to-point device and a non-null
  \<^verbatim>\<open>onTx\<close> or \<^verbatim>\<open>onRx\<close>, \<^verbatim>\<open>trace_subscribe_packet_events\<close> dereferences the null result of
  the cast: the call faults, whatever the simulator would do, and the handler for
  \<^verbatim>\<open>std::exception\<close> does not turn the fault into \<^verbatim>\<open>NS3_ERR\<close>.
\<close>

theorem trace_subscribe_null_dereference:
  assumes "dev \<noteq> 0" and "devices s (HandleToId dev) = Some device"
    and "device \<noteq> PointToPointNetDevice" and "onTx \<noteq> None \<or> onRx \<noteq> None"
  shows "trace_subscribe_packet_events (Some s) dev onTx onRx user e = Fault NullDereference"
  using assms
  by (cases device) (auto simp: trace_subscribe_packet_events_def ValidateSim_def GetDevice_def)

theorem trace_subscribe_null_dereference_witness:
  "csma_install (Some (new_ns3_sim_t\<lparr>nodes := [1 \<mapsto> Node], nextNodeId := 2\<rparr>)) (Some [1]) 1
       (Some ''100Mbps'') (Some ''6560ns'') ValidPtr (Completes ())
     = Returns NS3_OK
         (Some (new_ns3_sim_t\<lparr>nodes := [1 \<mapsto> Node], nextNodeId := 2,
                                devices := [1 \<mapsto> CsmaNetDevice], nextDeviceId := 2\<rparr>)) [1] \<and>
   trace_subscribe_packet_events
       (Some (new_ns3_sim_t\<lparr>nodes := [1 \<mapsto> Node], nextNodeId := 2,
                              devices := [1 \<mapsto> CsmaNetDevice], nextDeviceId := 2\<rparr>))
       1 (Some 0) None 0 (Completes ())
     = Fault NullDereference"
proof -
  let ?s = "new_ns3_sim_t\<lparr>nodes := [1 \<mapsto> Node], nextNodeId := 2,
                              devices := [1 \<mapsto> CsmaNetDevice], nextDeviceId := 2\<rparr>"
  have c: "csma_install (Some (new_ns3_sim_t\<lparr>nodes := [1 \<mapsto> Node], nextNodeId := 2\<rparr>)) (Some [1]) 1
       (Some ''100Mbps'') (Some ''6560ns'') ValidPtr (Completes ()) = Returns NS3_OK (Some ?s) [1]"
    by (simp add: csma_install_def ValidateSim_def deref_def GetNode_def HandleToId_def
          IdToDeviceHandle_def new_ns3_sim_t_def Let_def)
  have d: "devices ?s (HandleToId 1) = Some CsmaNetDevice"
    by (simp add: HandleToId_def)
  have "trace_subscribe_packet_events (Some ?s) 1 (Some 0) None 0 (Completes ()) = Fault NullDereference"
    by (rule trace_subscribe_null_dereference [OF _ d]) simp_all
  with c show ?thesis by simp
qed

subsection \<open>The running flag\<close>

lemma sim_run_sees_flag_set:
  "(\<forall>t. isRunning t \<longrightarrow> Run t = Run' t) \<Longrightarrow> sim_run (Some s) Run = sim_run (Some s) Run'"
  by (simp add: sim_run_def ValidateSim_def deref_def Let_def)

lemma sim_run_returns_flag_clear:
  "sim_run (Some s) Run = Returns st sim' out \<Longrightarrow> \<exists>s'. sim' = Some s' \<and> \<not> isRunning s'"
  by (auto simp: sim_run_def ValidateSim_def deref_def Let_def SetError_def
           split: ext.splits exn.splits)

lemma run_fresh_not_running:
  assumes "run (Some new_ns3_sim_t) cs = Some (sim2, outs)"
  shows "sim_is_running sim2 ValidPtr = Returns NS3_OK sim2 (Some 0)"
proof -
  have "\<not> isRunning new_ns3_sim_t" by (simp add: new_ns3_sim_t_def)
  with run_effect [OF assms] obtain s' where "sim2 = Some s'" "\<not> isRunning s'" by blast
  then show ?thesis by (simp add: sim_is_running_def ValidateSim_def deref_def)
qed

text \<open>
  Claim C6 says that \<^verbatim>\<open>sim_run\<close> clears the running flag on every exit path, also when
  the simulator throws, and then returns \<^verbatim>\<open>NS3_ERR\<close> with the error slot written. The
  handler of \<^verbatim>\<open>sim_run\<close> is \<^verbatim>\<open>catch (const std::exception& e)\<close>: an exception of another
  type leaves the call, which returns nothing and writes nothing, and the flag stays set.
\<close>

theorem sim_run_escaping_exception_keeps_flag:
  "sim_run (Some new_ns3_sim_t) (\<lambda>t. Throws OtherException)
     = Propagates OtherException (Some (new_ns3_sim_t\<lparr>isRunning := True\<rparr>)) \<and>
   isRunning (new_ns3_sim_t\<lparr>isRunning := True\<rparr>)"
  by (simp add: sim_run_def ValidateSim_def deref_def)

text \<open>
  Claim C6 as amended. The event loop runs with the flag set (the drain only ever sees
  a context whose flag is true). When the drain completes, \<^verbatim>\<open>sim_run\<close> returns
  \<^verbatim>\<open>NS3_OK\<close> with the flag cleared; when it throws a \<^verbatim>\<open>std::exception\<close>, \<^verbatim>\<open>sim_run\<close>
  returns \<^verbatim>\<open>NS3_ERR\<close> with the flag cleared and the error slot set to
  "sim_run failed: " followed by the exception's text; an exception of another type is
  not caught and leaves the flag set. Whenever \<^verbatim>\<open>sim_run\<close> returns, the flag is clear;
  and after any sequence of calls on a fresh simulation that all returned,
  \<^verbatim>\<open>sim_is_running\<close> reports 0.
\<close>

theorem sim_run_running_flag:
  "((\<forall>t. isRunning t \<longrightarrow> Run t = Run' t) \<longrightarrow> sim_run (Some s) Run = sim_run (Some s) Run') \<and>
   (Run (s\<lparr>isRunning := True\<rparr>) = Completes () \<longrightarrow>
      sim_run (Some s) Run = Returns NS3_OK (Some (s\<lparr>isRunning := False\<rparr>)) ()) \<and>
   (Run (s\<lparr>isRunning := True\<rparr>) = Throws (StdException what) \<longrightarrow>
      sim_run (Some s) Run
        = Returns NS3_ERR (Some (s\<lparr>isRunning := False, lastError := ''sim_run failed: '' @ what\<rparr>)) ()) \<and>
   (Run (s\<lparr>isRunning := True\<rparr>) = Throws OtherException \<longrightarrow>
      sim_run (Some s) Run = Propagates OtherException (Some (s\<lparr>isRunning := True\<rparr>))) \<and>
   (sim_run (Some s) Run = Returns st sim' out \<longrightarrow> (\<exists>s'. sim' = Some s' \<and> \<not> isRunning s')) \<and>
   (run (Some new_ns3_sim_t) cs = Some (sim2, outs) \<longrightarrow>
      sim_is_running sim2 ValidPtr = Returns NS3_OK sim2 (Some 0))"
proof (intro conjI impI)
  assume "\<forall>t. isRunning t \<longrightarrow> Run t = Run' t"
  then show "sim_run (Some s) Run = sim_run (Some s) Run'" by (rule sim_run_sees_flag_set)
next
  assume "Run (s\<lparr>isRunning := True\<rparr>) = Completes ()"
  then show "sim_run (Some s) Run = Returns NS3_OK (Some (s\<lparr>isRunning := False\<rparr>)) ()"
    by (simp add: sim_run_def ValidateSim_def deref_def)
next
  assume "Run (s\<lparr>isRunning := True\<rparr>) = Throws (StdException what)"
  then show "sim_run (Some s) Run
        = Returns NS3_ERR (Some (s\<lparr>isRunning := False, lastError := ''sim_run failed: '' @ what\<rparr>)) ()"
    by (simp add: sim_run_def ValidateSim_def deref_def SetError_def)
next
  assume "Run (s\<lparr>isRunning := True\<rparr>) = Throws OtherException"
  then show "sim_run (Some s) Run = Propagates OtherException (Some (s\<lparr>isRunning := True\<rparr>))"
    by (simp add: sim_run_def ValidateSim_def deref_def)
next
  assume "sim_run (Some s) Run = Returns st sim' out"
  then show "\<exists>s'. sim' = Some s' \<and> \<not> isRunning s'" by (rule sim_run_returns_flag_clear)
next
  assume "run (Some new_ns3_sim_t) cs = Some (sim2, outs)"
  then show "sim_is_running sim2 ValidPtr = Returns NS3_OK sim2 (Some 0)"
    by (rule run_fresh_not_running)
qed

theorem sim_run_running_flag_witness:
  "sim_run (Some new_ns3_sim_t) (\<lambda>t. if isRunning t then Completes () else Throws OtherException)
     = Returns NS3_OK (Some new_ns3_sim_t) () \<and>
   sim_run (Some new_ns3_sim_t) (\<lambda>t. if isRunning t then Throws (StdException ''boom'') else Completes ())
     = Returns NS3_ERR (Some (new_ns3_sim_t\<lparr>lastError := ''sim_run failed: boom''\<rparr>)) () \<and>
   sim_run (Some new_ns3_sim_t) (\<lambda>t. Throws OtherException)
     = Propagates OtherException (Some (new_ns3_sim_t\<lparr>isRunning := True\<rparr>)) \<and>
   run (Some new_ns3_sim_t) [SimRun (\<lambda>t. Completes ())] = Some (Some new_ns3_sim_t, [(NS3_OK, NoOutput)]) \<and>
   sim_is_running (Some new_ns3_sim_t) ValidPtr = Returns NS3_OK (Some new_ns3_sim_t) (Some 0)"
proof -
  let ?ok = "\<lambda>t. if isRunning t then Completes () else Throws OtherException"
  let ?boom = "\<lambda>t. if isRunning t then Throws (StdException ''boom'') else Completes ()"
  have n: "new_ns3_sim_t\<lparr>isRunning := False\<rparr> = new_ns3_sim_t"
    by (simp add: new_ns3_sim_t_def)
  have a: "sim_run (Some new_ns3_sim_t) ?ok = Returns NS3_OK (Some new_ns3_sim_t) ()"
    using sim_run_running_flag [of ?ok ?ok new_ns3_sim_t] by (simp add: n)
  have b: "sim_run (Some new_ns3_sim_t) ?boom
     = Returns NS3_ERR (Some (new_ns3_sim_t\<lparr>lastError := ''sim_run failed: boom''\<rparr>)) ()"
    using sim_run_running_flag [of ?boom ?boom new_ns3_sim_t "''boom''"]
    by (simp add: new_ns3_sim_t_def)
  have c: "sim_run (Some new_ns3_sim_t) (\<lambda>t. Throws OtherException)
     = Propagates OtherException (Some (new_ns3_sim_t\<lparr>isRunning := True\<rparr>))"
    using sim_run_running_flag [of "\<lambda>t. Throws OtherException" "\<lambda>t. Throws OtherException" new_ns3_sim_t]
    by simp
  have r: "run (Some new_ns3_sim_t) [SimRun (\<lambda>t. Completes ())]
     = Some (Some new_ns3_sim_t, [(NS3_OK, NoOutput)])"
    by (simp add: sim_run_def ValidateSim_def deref_def new_ns3_sim_t_def)
  have d: "sim_is_running (Some new_ns3_sim_t) ValidPtr = Returns NS3_OK (Some new_ns3_sim_t) (Some 0)"
    using sim_run_running_flag [of ?ok ?ok new_ns3_sim_t undefined NS3_OK None "()"
            "[SimRun (\<lambda>t. Completes ())]" "Some new_ns3_sim_t" "[(NS3_OK, NoOutput)]"] r
    by blast
  from a b c r d show ?thesis by (intro conjI)
qed

subsection \<open>Wi-Fi standard selection\<close>

text \<open>
  Whether \<^verbatim>\<open>wifi_install_sta_ap\<close> succeeds does not depend on the standard code, and a
  failing call fails the same way under any code. A successful call registers the
  station devices and the access-point device with the standard the code selects.
\<close>

lemma wifi_install_status_independent:
  "(\<exists>sim' out. wifi_install_sta_ap sim stas staCount ap phyStandard dataRate ch p1 p2 e
        = Returns NS3_OK sim' out) \<longleftrightarrow>
   (\<exists>sim' out. wifi_install_sta_ap sim stas staCount ap phyStandard' dataRate ch p1 p2 e
        = Returns NS3_OK sim' out)"
  by (auto simp: wifi_install_sta_ap_def deref_def catch_std_exception_def Let_def
           split: op_splits)

lemma wifi_install_failure_independent:
  "wifi_install_sta_ap sim stas staCount ap phyStandard dataRate ch p1 p2 e = Returns NS3_ERR sim' out \<Longrightarrow>
   wifi_install_sta_ap sim stas staCount ap phyStandard' dataRate ch p1 p2 e = Returns NS3_ERR sim' out"
  by (auto simp: wifi_install_sta_ap_def deref_def catch_std_exception_def Let_def
           split: op_splits)

lemma of_nat_u64_neq:
  "i < n \<Longrightarrow> n < 2 ^ 64 \<Longrightarrow> (a :: u64) + of_nat i \<noteq> a + of_nat n"
proof -
  assume "i < n" "n < 2 ^ 64"
  then have "take_bit 64 i = i" "take_bit 64 n = n"
    by (simp_all add: take_bit_nat_eq_self)
  with \<open>i < n\<close> show ?thesis by (simp add: word_of_nat_eq_iff)
qed

lemma wifi_install_registers:
  assumes "wifi_install_sta_ap (Some s) stas staCount ap phyStandard dataRate ch p1 p2 e
             = Returns NS3_OK sim' (out, apOut)"
  shows "\<exists>s' apDev. sim' = Some s' \<and> apOut = Some apDev \<and>
           devices s' (HandleToId apDev) = Some (WifiNetDevice (SetStandard phyStandard) ApWifiMac) \<and>
           (\<forall>h\<in>set out. devices s' (HandleToId h)
                           = Some (WifiNetDevice (SetStandard phyStandard) StaWifiMac))"
proof -
  let ?n = "unat staCount"
  let ?sta = "WifiNetDevice (SetStandard phyStandard) StaWifiMac"
  let ?ap = "WifiNetDevice (SetStandard phyStandard) ApWifiMac"
  from assms obtain s1 where
    reg: "register_devices (replicate ?n ?sta) s = (s1, out)" and
    fin: "sim' = Some (s1\<lparr>nextDeviceId := nextDeviceId s1 + 1,
                           devices := (devices s1)(nextDeviceId s1 \<mapsto> ?ap)\<rparr>)" and
    apo: "apOut = Some (IdToDeviceHandle (nextDeviceId s1))"
    by (auto simp: wifi_install_sta_ap_def op_simps Let_def
             split: op_splits dest!: lookup_nodes_cases GetNode_cases)
  from register_devices_spec [OF reg]
  have out: "out = map (\<lambda>i. nextDeviceId s + of_nat i) [0..<?n]"
    and nxt: "nextDeviceId s1 = nextDeviceId s + of_nat ?n"
    by simp_all
  have n: "?n < 2 ^ 64"
  proof -
    have "?n < 2 ^ 32" using unsigned_less [of staCount] by simp
    then show ?thesis by simp
  qed
  have stas: "devices s1 h = Some ?sta" if "h \<in> set out" for h
    using register_devices_same [OF reg _ that] by simp
  have neq: "h \<noteq> nextDeviceId s1" if "h \<in> set out" for h
  proof -
    from that obtain i where i: "i < ?n" and h: "h = nextDeviceId s + of_nat i"
      unfolding out by auto
    from of_nat_u64_neq [OF i n] show ?thesis
      unfolding h nxt .
  qed
  from fin apo stas neq show ?thesis
    by (simp add: HandleToId_def IdToDeviceHandle_def)
qed

text \<open>
  Claim C9. The codes 0, 1, 2, 3, 4, 5 select 802.11a, b, g, n, n, ac: both 3 and 4
  select 802.11n. A code outside 0..5 selects the default 802.11n and does not make
  the call fail: the call succeeds under one code exactly when it succeeds under any
  other, and on success the devices it registers carry the selected standard.
\<close>

theorem wifi_standard_selection:
  "SetStandard 0 = WIFI_STANDARD_80211a \<and> SetStandard 1 = WIFI_STANDARD_80211b \<and>
   SetStandard 2 = WIFI_STANDARD_80211g \<and> SetStandard 3 = WIFI_STANDARD_80211n \<and>
   SetStandard 4 = WIFI_STANDARD_80211n \<and> SetStandard 5 = WIFI_STANDARD_80211ac \<and>
   (phyStandard < 0 \<or> 5 < phyStandard \<longrightarrow> SetStandard phyStandard = WIFI_STANDARD_80211n) \<and>
   ((\<exists>sim' out. wifi_install_sta_ap sim stas staCount ap phyStandard dataRate ch p1 p2 e
         = Returns NS3_OK sim' out) \<longleftrightarrow>
    (\<exists>sim' out. wifi_install_sta_ap sim stas staCount ap phyStandard' dataRate ch p1 p2 e
         = Returns NS3_OK sim' out)) \<and>
   (wifi_install_sta_ap (Some s) stas staCount ap phyStandard dataRate ch p1 p2 e
      = Returns NS3_OK sim2 (out, apOut) \<longrightarrow>
    (\<exists>s' apDev. sim2 = Some s' \<and> apOut = Some apDev \<and>
        devices s' (HandleToId apDev) = Some (WifiNetDevice (SetStandard phyStandard) ApWifiMac) \<and>
        (\<forall>h\<in>set out. devices s' (HandleToId h)
                        = Some (WifiNetDevice (SetStandard phyStandard) StaWifiMac))))"
  using SetStandard_cases [of phyStandard]
    wifi_install_status_independent [of sim stas staCount ap phyStandard dataRate ch p1 p2 e phyStandard']
    wifi_install_registers [of s stas staCount ap phyStandard dataRate ch p1 p2 e sim2 out apOut]
  by (intro conjI impI) simp_all

theorem wifi_standard_selection_witness:
  "SetStandard 99 = WIFI_STANDARD_80211n \<and>
   wifi_install_sta_ap (Some (new_ns3_sim_t\<lparr>nodes := [1 \<mapsto> Node, 2 \<mapsto> Node], nextNodeId := 3\<rparr>))
       (Some [1]) 1 2 99 (Some ''54Mbps'') 1 ValidPtr ValidPtr (Completes ())
     = Returns NS3_OK
         (Some (new_ns3_sim_t
                  \<lparr>nodes := [1 \<mapsto> Node, 2 \<mapsto> Node], nextNodeId := 3,
                   devices := [1 \<mapsto> WifiNetDevice WIFI_STANDARD_80211n StaWifiMac,
                               2 \<mapsto> WifiNetDevice WIFI_STANDARD_80211n ApWifiMac],
                   nextDeviceId := 3\<rparr>))
         ([1], Some 2)"
proof -
  let ?s = "new_ns3_sim_t\<lparr>nodes := [1 \<mapsto> Node, 2 \<mapsto> Node], nextNodeId := 3\<rparr>"
  have d: "SetStandard 99 = WIFI_STANDARD_80211n"
    using wifi_standard_selection [of 99] by simp
  have "wifi_install_sta_ap (Some ?s) (Some [1]) 1 2 99 (Some ''54Mbps'') 1 ValidPtr ValidPtr (Completes ())
     = Returns NS3_OK
         (Some (?s\<lparr>devices := [1 \<mapsto> WifiNetDevice (SetStandard 99) StaWifiMac,
                                 2 \<mapsto> WifiNetDevice (SetStandard 99) ApWifiMac],
                     nextDeviceId := 3\<rparr>))
         ([1], Some 2)"
    by (simp add: wifi_install_sta_ap_def ValidateSim_def deref_def GetNode_def HandleToId_def
          IdToDeviceHandle_def new_ns3_sim_t_def Let_def)
  with d show ?thesis by simp
qed

subsection \<open>Handles presented to another simulation\<close>

text \<open>
  A handle is its ID and nothing else. What a simulation does with a non-null handle
  depends only on whether that ID is a key of its own registry of the kind.
\<close>

lemma GetNode_miss:
  "h \<noteq> 0 \<Longrightarrow> nodes s (HandleToId h) = None \<Longrightarrow>
   GetNode (Some s) h = (None, Some (s\<lparr>lastError := ''Invalid node handle''\<rparr>))"
  by (simp add: GetNode_def SetError_def)

lemma GetDevice_miss:
  "h \<noteq> 0 \<Longrightarrow> devices s (HandleToId h) = None \<Longrightarrow>
   GetDevice (Some s) h = (None, Some (s\<lparr>lastError := ''Invalid device handle''\<rparr>))"
  by (simp add: GetDevice_def SetError_def)

lemma GetApp_miss:
  "h \<noteq> 0 \<Longrightarrow> apps s (HandleToId h) = None \<Longrightarrow>
   GetApp (Some s) h = (None, Some (s\<lparr>lastError := ''Invalid application handle''\<rparr>))"
  by (simp add: GetApp_def SetError_def)

lemma GetFlowMon_miss:
  "h \<noteq> 0 \<Longrightarrow> flowMons s (HandleToId h) = None \<Longrightarrow>
   GetFlowMon (Some s) h = (None, Some (s\<lparr>lastError := ''Invalid flow monitor handle''\<rparr>))"
  by (simp add: GetFlowMon_def SetError_def)

lemma GetNode_hit:
  "h \<noteq> 0 \<Longrightarrow> nodes s (HandleToId h) = Some n \<Longrightarrow> GetNode (Some s) h = (Some n, Some s)"
  by (simp add: GetNode_def)

lemma GetDevice_hit:
  "h \<noteq> 0 \<Longrightarrow> devices s (HandleToId h) = Some d \<Longrightarrow> GetDevice (Some s) h = (Some d, Some s)"
  by (simp add: GetDevice_def)

lemma GetApp_hit:
  "h \<noteq> 0 \<Longrightarrow> apps s (HandleToId h) = Some a \<Longrightarrow> GetApp (Some s) h = (Some a, Some s)"
  by (simp add: GetApp_def)

lemma GetFlowMon_hit:
  "h \<noteq> 0 \<Longrightarrow> flowMons s (HandleToId h) = Some m \<Longrightarrow> GetFlowMon (Some s) h = (Some m, Some s)"
  by (simp add: GetFlowMon_def)

lemma lookup_nodes_miss:
  "0 \<notin> set hs \<Longrightarrow> h \<in> set hs \<Longrightarrow> nodes s (HandleToId h) = None \<Longrightarrow>
   lookup_nodes (Some s) hs = (None, Some (s\<lparr>lastError := ''Invalid node handle''\<rparr>))"
proof (induction hs)
  case Nil
  then show ?case by simp
next
  case (Cons x xs)
  from Cons.prems(1) have x0: "x \<noteq> 0" and xs0: "0 \<notin> set xs" by auto
  show ?case
  proof (cases "nodes s (HandleToId x)")
    case None
    with x0 show ?thesis by (simp add: GetNode_miss)
  next
    case (Some n)
    with Cons.prems have "h \<in> set xs" by auto
    with Cons.IH xs0 Cons.prems(3) Some x0 show ?thesis
      by (simp add: GetNode_hit)
  qed
qed

lemma lookup_devices_miss:
  "0 \<notin> set hs \<Longrightarrow> h \<in> set hs \<Longrightarrow> devices s (HandleToId h) = None \<Longrightarrow>
   lookup_devices (Some s) hs = (None, Some (s\<lparr>lastError := ''Invalid device handle''\<rparr>))"
proof (induction hs)
  case Nil
  then show ?case by simp
next
  case (Cons x xs)
  from Cons.prems(1) have x0: "x \<noteq> 0" and xs0: "0 \<notin> set xs" by auto
  show ?case
  proof (cases "devices s (HandleToId x)")
    case None
    with x0 show ?thesis by (simp add: GetDevice_miss)
  next
    case (Some n)
    with Cons.prems have "h \<in> set xs" by auto
    with Cons.IH xs0 Cons.prems(3) Some x0 show ?thesis
      by (simp add: GetDevice_hit)
  qed
qed

lemma take_nonempty_count: "h \<in> set (take (unat (count :: u32)) hs) \<Longrightarrow> count \<noteq> 0"
  by auto


lemma mobility_miss:
  "h \<noteq> 0 \<Longrightarrow> nodes s (HandleToId h) = None \<Longrightarrow>
   mobility_set_constant_position (Some s) h x y z e = Returns NS3_ERR (Some (s\<lparr>lastError := ''Invalid node handle''\<rparr>)) ()"
  by (simp add: mobility_set_constant_position_def ValidateSim_def GetNode_miss)

lemma app_udpecho_server_miss:
  "h \<noteq> 0 \<Longrightarrow> nodes s (HandleToId h) = None \<Longrightarrow>
   app_udpecho_server (Some s) h port ValidPtr e = Returns NS3_ERR (Some (s\<lparr>lastError := ''Invalid node handle''\<rparr>)) None"
  by (simp add: app_udpecho_server_def ValidateSim_def GetNode_miss)

lemma app_udpecho_client_miss:
  "h \<noteq> 0 \<Longrightarrow> nodes s (HandleToId h) = None \<Longrightarrow>
   app_udpecho_client (Some s) h (Some dstIp) port psize interval maxPackets ValidPtr e
     = Returns NS3_ERR (Some (s\<lparr>lastError := ''Invalid node handle''\<rparr>)) None"
  by (simp add: app_udpecho_client_def ValidateSim_def GetNode_miss)

lemma p2p_install_miss_a:
  "h \<noteq> 0 \<Longrightarrow> nodes s (HandleToId h) = None \<Longrightarrow> b \<noteq> 0 \<Longrightarrow>
   p2p_install (Some s) h b (Some dataRate) (Some delay) mtu ValidPtr ValidPtr e
     = Returns NS3_ERR (Some (s\<lparr>lastError := ''Invalid node handle''\<rparr>)) None"
  by (cases "nodes s (HandleToId b)")
     (simp_all add: p2p_install_def ValidateSim_def GetNode_def SetError_def)

lemma p2p_install_miss_b:
  "h \<noteq> 0 \<Longrightarrow> nodes s (HandleToId h) = None \<Longrightarrow> b \<noteq> 0 \<Longrightarrow>
   p2p_install (Some s) b h (Some dataRate) (Some delay) mtu ValidPtr ValidPtr e
     = Returns NS3_ERR (Some (s\<lparr>lastError := ''Invalid node handle''\<rparr>)) None"
  by (cases "nodes s (HandleToId b)")
     (simp_all add: p2p_install_def ValidateSim_def GetNode_def SetError_def)

lemma internet_install_miss:
  "0 \<notin> set (take (unat count) hs) \<Longrightarrow> h \<in> set (take (unat count) hs) \<Longrightarrow>
   nodes s (HandleToId h) = None \<Longrightarrow>
   internet_install (Some s) (Some hs) count e = Returns NS3_ERR (Some (s\<lparr>lastError := ''Invalid node handle''\<rparr>)) ()"
  using take_nonempty_count [of h count hs]
  by (simp add: internet_install_def ValidateSim_def lookup_nodes_miss)

lemma csma_install_miss:
  "0 \<notin> set (take (unat count) hs) \<Longrightarrow> h \<in> set (take (unat count) hs) \<Longrightarrow>
   nodes s (HandleToId h) = None \<Longrightarrow>
   csma_install (Some s) (Some hs) count (Some dataRate) (Some delay) ValidPtr e
     = Returns NS3_ERR (Some (s\<lparr>lastError := ''Invalid node handle''\<rparr>)) []"
  using take_nonempty_count [of h count hs]
  by (simp add: csma_install_def ValidateSim_def lookup_nodes_miss)

lemma wifi_install_sta_ap_miss:
  "0 \<notin> set (take (unat count) hs) \<Longrightarrow> h \<in> set (take (unat count) hs) \<Longrightarrow>
   nodes s (HandleToId h) = None \<Longrightarrow> ap \<noteq> 0 \<Longrightarrow>
   wifi_install_sta_ap (Some s) (Some hs) count ap std (Some dataRate) ch ValidPtr ValidPtr e
     = Returns NS3_ERR (Some (s\<lparr>lastError := ''Invalid node handle''\<rparr>)) ([], None)"
  using take_nonempty_count [of h count hs]
  by (simp add: wifi_install_sta_ap_def ValidateSim_def lookup_nodes_miss)

lemma trace_subscribe_miss:
  "h \<noteq> 0 \<Longrightarrow> devices s (HandleToId h) = None \<Longrightarrow>
   trace_subscribe_packet_events (Some s) h onTx onRx user e = Returns NS3_ERR (Some (s\<lparr>lastError := ''Invalid device handle''\<rparr>)) ()"
  by (simp add: trace_subscribe_packet_events_def ValidateSim_def GetDevice_miss)

lemma pcap_enable_miss:
  "h \<noteq> 0 \<Longrightarrow> devices s (HandleToId h) = None \<Longrightarrow>
   pcap_enable (Some s) h (Some filePrefix) e = Returns NS3_ERR (Some (s\<lparr>lastError := ''Invalid device handle''\<rparr>)) ()"
  by (simp add: pcap_enable_def ValidateSim_def GetDevice_miss)

lemma ipv4_assign_miss:
  "0 \<notin> set (take (unat count) hs) \<Longrightarrow> h \<in> set (take (unat count) hs) \<Longrightarrow>
   devices s (HandleToId h) = None \<Longrightarrow>
   ipv4_assign (Some s) (Some hs) count (Some networkBase) (Some netmask) e = Returns NS3_ERR (Some (s\<lparr>lastError := ''Invalid device handle''\<rparr>)) ()"
  using take_nonempty_count [of h count hs]
  by (simp add: ipv4_assign_def ValidateSim_def lookup_devices_miss)

lemma app_start_miss:
  "h \<noteq> 0 \<Longrightarrow> apps s (HandleToId h) = None \<Longrightarrow>
   app_start (Some s) h atTimeSec e = Returns NS3_ERR (Some (s\<lparr>lastError := ''Invalid application handle''\<rparr>)) ()"
  by (simp add: app_start_def ValidateSim_def GetApp_miss)

lemma app_stop_miss:
  "h \<noteq> 0 \<Longrightarrow> apps s (HandleToId h) = None \<Longrightarrow>
   app_stop (Some s) h atTimeSec e = Returns NS3_ERR (Some (s\<lparr>lastError := ''Invalid application handle''\<rparr>)) ()"
  by (simp add: app_stop_def ValidateSim_def GetApp_miss)

lemma flowmon_collect_miss:
  "h \<noteq> 0 \<Longrightarrow> flowMons s (HandleToId h) = None \<Longrightarrow>
   flowmon_collect (Some s) h ValidPtr ef = Returns NS3_ERR (Some (s\<lparr>lastError := ''Invalid flow monitor handle''\<rparr>)) None"
  by (simp add: flowmon_collect_def ValidateSim_def GetFlowMon_miss)

lemma lookup_nodes_hit:
  "\<forall>x\<in>set hs. x \<noteq> 0 \<and> nodes s (HandleToId x) \<noteq> None \<Longrightarrow>
   \<exists>nc. lookup_nodes (Some s) hs = (Some nc, Some s)"
proof (induction hs)
  case Nil
  then show ?case by simp
next
  case (Cons x xs)
  from Cons.prems obtain n where x: "x \<noteq> 0" "nodes s (HandleToId x) = Some n"
    by auto
  from Cons.IH Cons.prems obtain nc where "lookup_nodes (Some s) xs = (Some nc, Some s)"
    by auto
  with x show ?case by (simp add: GetNode_hit)
qed

lemma wifi_install_sta_ap_miss_ap:
  "h \<noteq> 0 \<Longrightarrow> nodes s (HandleToId h) = None \<Longrightarrow> count \<noteq> 0 \<Longrightarrow>
   \<forall>x\<in>set (take (unat count) hs). x \<noteq> 0 \<and> nodes s (HandleToId x) \<noteq> None \<Longrightarrow>
   wifi_install_sta_ap (Some s) (Some hs) count h std (Some dataRate) ch ValidPtr ValidPtr e
     = Returns NS3_ERR (Some (s\<lparr>lastError := ''Invalid node handle''\<rparr>)) ([], None)"
proof -
  assume h: "h \<noteq> 0" "nodes s (HandleToId h) = None" and c: "count \<noteq> 0"
    and a: "\<forall>x\<in>set (take (unat count) hs). x \<noteq> 0 \<and> nodes s (HandleToId x) \<noteq> None"
  from lookup_nodes_hit [OF a] obtain nc where
    "lookup_nodes (Some s) (take (unat count) hs) = (Some nc, Some s)" ..
  with h c show ?thesis
    by (simp add: wifi_install_sta_ap_def ValidateSim_def GetNode_miss)
qed

lemmas handle_miss = GetNode_miss GetDevice_miss GetApp_miss GetFlowMon_miss
  GetNode_hit GetDevice_hit GetApp_hit GetFlowMon_hit
  mobility_miss app_udpecho_server_miss app_udpecho_client_miss p2p_install_miss_a
  p2p_install_miss_b trace_subscribe_miss pcap_enable_miss app_start_miss app_stop_miss
  flowmon_collect_miss wifi_install_sta_ap_miss_ap

lemmas array_miss = internet_install_miss csma_install_miss wifi_install_sta_ap_miss
  ipv4_assign_miss

text \<open>
  Claim C2 says that a handle issued by one simulation always misses in another. Every
  simulation counts its IDs from 1, so the two overlap: the first node handle of a
  simulation with two nodes, presented to a different simulation that has one node of
  its own, is looked up successfully there and \<^verbatim>\<open>internet_install\<close> returns \<^verbatim>\<open>NS3_OK\<close>
  with the error slot left empty.
\<close>

theorem foreign_handle_accepted_when_id_issued:
  "nodes_create (Some new_ns3_sim_t) 2 ValidPtr (Completes ())
     = Returns NS3_OK (Some (new_ns3_sim_t\<lparr>nodes := [1 \<mapsto> Node, 2 \<mapsto> Node], nextNodeId := 3\<rparr>)) [1, 2] \<and>
   nodes_create (Some new_ns3_sim_t) 1 ValidPtr (Completes ())
     = Returns NS3_OK (Some (new_ns3_sim_t\<lparr>nodes := [1 \<mapsto> Node], nextNodeId := 2\<rparr>)) [1] \<and>
   new_ns3_sim_t\<lparr>nodes := [1 \<mapsto> Node, 2 \<mapsto> Node], nextNodeId := 3\<rparr>
     \<noteq> new_ns3_sim_t\<lparr>nodes := [1 \<mapsto> Node], nextNodeId := 2\<rparr> \<and>
   GetNode (Some (new_ns3_sim_t\<lparr>nodes := [1 \<mapsto> Node], nextNodeId := 2\<rparr>)) 1
     = (Some Node, Some (new_ns3_sim_t\<lparr>nodes := [1 \<mapsto> Node], nextNodeId := 2\<rparr>)) \<and>
   internet_install (Some (new_ns3_sim_t\<lparr>nodes := [1 \<mapsto> Node], nextNodeId := 2\<rparr>))
       (Some [1]) 1 (Completes ())
     = Returns NS3_OK (Some (new_ns3_sim_t\<lparr>nodes := [1 \<mapsto> Node], nextNodeId := 2\<rparr>)) () \<and>
   lastError (new_ns3_sim_t\<lparr>nodes := [1 \<mapsto> Node], nextNodeId := 2\<rparr>) = []"
  by (simp add: nodes_create_def internet_install_def ValidateSim_def deref_def GetNode_def
        HandleToId_def IdToNodeHandle_def new_ns3_sim_t_def Let_def replicate_2)

text \<open>
  Claim C2 as amended. A non-null handle whose ID is not a key of the simulation's
  registry of that kind (whichever simulation issued it) misses: the lookup sets the
  error slot to the message of the kind. Every entry point given the handle, in any of
  its handle positions and with its other pointer, string and handle arguments non-null
  (so that the call gets as far as the lookup), then returns \<^verbatim>\<open>NS3_ERR\<close> with that
  message in the slot, whatever the simulator would do. For an entry point that takes
  an array, this holds when the handle is among the \<open>count\<close> elements read and none of
  them is null. For the handle as the access point of \<^verbatim>\<open>wifi_install_sta_ap\<close>, it holds
  when the station handles read are all non-null and registered (an unregistered
  station handle is reported first, in the same way). When the ID is a key of the
  registry, the lookup hits and leaves the context unchanged.
\<close>

theorem unregistered_handle_rejected:
  assumes "h \<noteq> 0"
  shows
   "(nodes s (HandleToId h) = None \<longrightarrow>
       GetNode (Some s) h = (None, (Some (s\<lparr>lastError := ''Invalid node handle''\<rparr>))) \<and>
       mobility_set_constant_position (Some s) h x y z e = Returns NS3_ERR (Some (s\<lparr>lastError := ''Invalid node handle''\<rparr>)) () \<and>
       app_udpecho_server (Some s) h port ValidPtr e = Returns NS3_ERR (Some (s\<lparr>lastError := ''Invalid node handle''\<rparr>)) None \<and>
       app_udpecho_client (Some s) h (Some dstIp) port psize interval maxPackets ValidPtr e
         = Returns NS3_ERR (Some (s\<lparr>lastError := ''Invalid node handle''\<rparr>)) None \<and>
       (b \<noteq> 0 \<longrightarrow>
          p2p_install (Some s) h b (Some dataRate) (Some delay) mtu ValidPtr ValidPtr e
            = Returns NS3_ERR (Some (s\<lparr>lastError := ''Invalid node handle''\<rparr>)) None \<and>
          p2p_install (Some s) b h (Some dataRate) (Some delay) mtu ValidPtr ValidPtr e
            = Returns NS3_ERR (Some (s\<lparr>lastError := ''Invalid node handle''\<rparr>)) None) \<and>
       (0 \<notin> set (take (unat count) hs) \<and> h \<in> set (take (unat count) hs) \<longrightarrow>
          internet_install (Some s) (Some hs) count e = Returns NS3_ERR (Some (s\<lparr>lastError := ''Invalid node handle''\<rparr>)) () \<and>
          csma_install (Some s) (Some hs) count (Some dataRate) (Some delay) ValidPtr e
            = Returns NS3_ERR (Some (s\<lparr>lastError := ''Invalid node handle''\<rparr>)) [] \<and>
          (ap \<noteq> 0 \<longrightarrow>
             wifi_install_sta_ap (Some s) (Some hs) count ap std (Some dataRate) ch ValidPtr ValidPtr e
               = Returns NS3_ERR (Some (s\<lparr>lastError := ''Invalid node handle''\<rparr>)) ([], None))) \<and>
       (staCount \<noteq> 0 \<and>
        (\<forall>sta\<in>set (take (unat staCount) stas). sta \<noteq> 0 \<and> nodes s (HandleToId sta) \<noteq> None) \<longrightarrow>
          wifi_install_sta_ap (Some s) (Some stas) staCount h std (Some dataRate) ch ValidPtr ValidPtr e
            = Returns NS3_ERR (Some (s\<lparr>lastError := ''Invalid node handle''\<rparr>)) ([], None))) \<and>
    (devices s (HandleToId h) = None \<longrightarrow>
       GetDevice (Some s) h = (None, (Some (s\<lparr>lastError := ''Invalid device handle''\<rparr>))) \<and>
       trace_subscribe_packet_events (Some s) h onTx onRx user e = Returns NS3_ERR (Some (s\<lparr>lastError := ''Invalid device handle''\<rparr>)) () \<and>
       pcap_enable (Some s) h (Some filePrefix) e = Returns NS3_ERR (Some (s\<lparr>lastError := ''Invalid device handle''\<rparr>)) () \<and>
       (0 \<notin> set (take (unat count) hs) \<and> h \<in> set (take (unat count) hs) \<longrightarrow>
          ipv4_assign (Some s) (Some hs) count (Some networkBase) (Some netmask) e
            = Returns NS3_ERR (Some (s\<lparr>lastError := ''Invalid device handle''\<rparr>)) ())) \<and>
    (apps s (HandleToId h) = None \<longrightarrow>
       GetApp (Some s) h = (None, (Some (s\<lparr>lastError := ''Invalid application handle''\<rparr>))) \<and>
       app_start (Some s) h atTimeSec e = Returns NS3_ERR (Some (s\<lparr>lastError := ''Invalid application handle''\<rparr>)) () \<and>
       app_stop (Some s) h atTimeSec e = Returns NS3_ERR (Some (s\<lparr>lastError := ''Invalid application handle''\<rparr>)) ()) \<and>
    (flowMons s (HandleToId h) = None \<longrightarrow>
       GetFlowMon (Some s) h = (None, (Some (s\<lparr>lastError := ''Invalid flow monitor handle''\<rparr>))) \<and>
       flowmon_collect (Some s) h ValidPtr ef = Returns NS3_ERR (Some (s\<lparr>lastError := ''Invalid flow monitor handle''\<rparr>)) None) \<and>
    (nodes s (HandleToId h) = Some n \<longrightarrow> GetNode (Some s) h = (Some n, Some s)) \<and>
    (devices s (HandleToId h) = Some d \<longrightarrow> GetDevice (Some s) h = (Some d, Some s)) \<and>
    (apps s (HandleToId h) = Some a \<longrightarrow> GetApp (Some s) h = (Some a, Some s)) \<and>
    (flowMons s (HandleToId h) = Some m \<longrightarrow> GetFlowMon (Some s) h = (Some m, Some s))"
  by (intro conjI impI; (elim conjE)?; (rule handle_miss [OF assms] array_miss); assumption+)

theorem unregistered_handle_rejected_witness:
  "nodes_create (Some new_ns3_sim_t) 2 ValidPtr (Completes ())
     = Returns NS3_OK (Some (new_ns3_sim_t\<lparr>nodes := [1 \<mapsto> Node, 2 \<mapsto> Node], nextNodeId := 3\<rparr>)) [1, 2] \<and>
   internet_install (Some new_ns3_sim_t) (Some [1, 2]) 2 (Completes ())
     = Returns NS3_ERR (Some (new_ns3_sim_t\<lparr>lastError := ''Invalid node handle''\<rparr>)) () \<and>
   pcap_enable (Some new_ns3_sim_t) 1 (Some ''trace'') (Completes ())
     = Returns NS3_ERR (Some (new_ns3_sim_t\<lparr>lastError := ''Invalid device handle''\<rparr>)) () \<and>
   app_start (Some new_ns3_sim_t) 1 1 (Completes ())
     = Returns NS3_ERR (Some (new_ns3_sim_t\<lparr>lastError := ''Invalid application handle''\<rparr>)) () \<and>
   flowmon_collect (Some new_ns3_sim_t) 1 ValidPtr (Completes [])
     = Returns NS3_ERR (Some (new_ns3_sim_t\<lparr>lastError := ''Invalid flow monitor handle''\<rparr>)) None \<and>
   wifi_install_sta_ap (Some (new_ns3_sim_t\<lparr>nodes := [1 \<mapsto> Node], nextNodeId := 2\<rparr>))
       (Some [1]) 1 2 5 (Some ''54Mbps'') 36 ValidPtr ValidPtr (Completes ())
     = Returns NS3_ERR
         (Some (new_ns3_sim_t\<lparr>nodes := [1 \<mapsto> Node], nextNodeId := 2,
                                lastError := ''Invalid node handle''\<rparr>))
         ([], None)"
proof -
  have c: "nodes_create (Some new_ns3_sim_t) 2 ValidPtr (Completes ())
     = Returns NS3_OK (Some (new_ns3_sim_t\<lparr>nodes := [1 \<mapsto> Node, 2 \<mapsto> Node], nextNodeId := 3\<rparr>)) [1, 2]"
    by (simp add: nodes_create_def ValidateSim_def deref_def IdToNodeHandle_def new_ns3_sim_t_def
          Let_def replicate_2)
  have h: "(1 :: handle) \<noteq> 0" by simp
  have e: "nodes new_ns3_sim_t (HandleToId 1) = None" "devices new_ns3_sim_t (HandleToId 1) = None"
    "apps new_ns3_sim_t (HandleToId 1) = None" "flowMons new_ns3_sim_t (HandleToId 1) = None"
    by (simp_all add: new_ns3_sim_t_def)
  have a: "0 \<notin> set (take (unat (2 :: u32)) [1, 2 :: handle]) \<and>
           1 \<in> set (take (unat (2 :: u32)) [1, 2 :: handle])"
    by simp
  have r: "internet_install (Some new_ns3_sim_t) (Some [1, 2]) 2 (Completes ())
       = Returns NS3_ERR (Some (new_ns3_sim_t\<lparr>lastError := ''Invalid node handle''\<rparr>)) () \<and>
     pcap_enable (Some new_ns3_sim_t) 1 (Some ''trace'') (Completes ())
       = Returns NS3_ERR (Some (new_ns3_sim_t\<lparr>lastError := ''Invalid device handle''\<rparr>)) () \<and>
     app_start (Some new_ns3_sim_t) 1 1 (Completes ())
       = Returns NS3_ERR (Some (new_ns3_sim_t\<lparr>lastError := ''Invalid application handle''\<rparr>)) () \<and>
     flowmon_collect (Some new_ns3_sim_t) 1 ValidPtr (Completes [])
       = Returns NS3_ERR (Some (new_ns3_sim_t\<lparr>lastError := ''Invalid flow monitor handle''\<rparr>)) None"
    using unregistered_handle_rejected [OF h, where s = new_ns3_sim_t and e = "Completes ()"
         and count = 2 and hs = "[1, 2]" and filePrefix = "''trace''" and atTimeSec = 1
         and ef = "Completes []"] e a
    by simp
  let ?s2 = "new_ns3_sim_t\<lparr>nodes := [1 \<mapsto> Node], nextNodeId := 2\<rparr>"
  have h2: "(2 :: handle) \<noteq> 0" by simp
  have e2: "nodes ?s2 (HandleToId 2) = None"
    by (simp add: HandleToId_def new_ns3_sim_t_def)
  have a2: "(1 :: u32) \<noteq> 0 \<and>
            (\<forall>sta\<in>set (take (unat (1 :: u32)) [1 :: handle]). sta \<noteq> 0 \<and> nodes ?s2 (HandleToId sta) \<noteq> None)"
    by (simp add: HandleToId_def new_ns3_sim_t_def)
  have w: "wifi_install_sta_ap (Some ?s2) (Some [1]) 1 2 5 (Some ''54Mbps'') 36 ValidPtr ValidPtr (Completes ())
     = Returns NS3_ERR (Some (?s2\<lparr>lastError := ''Invalid node handle''\<rparr>)) ([], None)"
    using unregistered_handle_rejected [OF h2, where s = ?s2 and e = "Completes ()"
         and staCount = 1 and stas = "[1]" and std = 5 and dataRate = "''54Mbps''" and ch = 36]
       e2 a2
    by simp
  from c r w show ?thesis by simp
qed

end
